theory Spec2Isabelle
  imports Main "HOL-Library.Word"
begin

section \<open>TLS settings and certificate reloading (package configtls)\<close>

text \<open>
  A sequential model of \<^verbatim>\<open>configtls\<close>: the settings structs, the certificate
  reloader and the two \<^verbatim>\<open>LoadTLSConfig\<close> builders. Everything the Go code takes
  from outside the package (the clock, the disk, the X.509 parsers of the standard
  library) is read from a \<open>world\<close> value passed to each call, and every function
  returns, beside its result, the list of disk operations it performed, in order.
  The \<^verbatim>\<open>sync.RWMutex\<close> of the reloader is not modelled: one call runs at a time.
\<close>

subsection \<open>Errors\<close>

text \<open>
  Go error values. \<open>New m\<close> is \<^verbatim>\<open>errors.New(m)\<close> (also used for the errors of
  the standard library), \<open>Errorf f args\<close> is \<^verbatim>\<open>fmt.Errorf(f, args...)\<close> without
  a wrapped error, \<open>Wrapf f args err\<close> is \<^verbatim>\<open>fmt.Errorf(f, args..., err)\<close> where
  the last verb of \<open>f\<close> is \<^verbatim>\<open>%w\<close>.
\<close>

datatype error =
    New string
  | Errorf string "string list"
  | Wrapf string "string list" error

subsection \<open>Clock, disk and library\<close>

text \<open>
  \<^verbatim>\<open>time.Time\<close> is a point on one clock, in nanoseconds; \<^verbatim>\<open>time.Duration\<close> is
  Go's \<^verbatim>\<open>int64\<close> count of nanoseconds. \<open>Add\<close> is \<^verbatim>\<open>Time.Add\<close> and \<open>Before\<close>
  is \<^verbatim>\<open>Time.Before\<close>.
\<close>

type_synonym time = int
type_synonym duration = "64 word"

definition Add :: "time \<Rightarrow> duration \<Rightarrow> time" where
  "Add t d = t + sint d"

definition Before :: "time \<Rightarrow> time \<Rightarrow> bool" where
  "Before t u = (t < u)"

text \<open>
  The world at the moment of a call: what \<^verbatim>\<open>time.Now()\<close> returns, and what the
  disk answers to \<^verbatim>\<open>tls.LoadX509KeyPair(certFile, keyFile)\<close> and to
  \<^verbatim>\<open>os.ReadFile(filepath.Clean(path))\<close>. \<open>AppendCertsFromPEM w pem\<close> is the pool
  obtained from \<^verbatim>\<open>x509.NewCertPool()\<close> by \<^verbatim>\<open>AppendCertsFromPEM(pem)\<close>, or
  \<open>None\<close> when that call returns false. \<open>WatchFile w path\<close> is the answer of the
  file system to a request for change notifications on \<open>path\<close>: \<open>None\<close> when the
  watch is set up, \<open>Some err\<close> when it is refused.

  A \<^verbatim>\<open>tls.Certificate\<close> is the parsed pair: the certificate chain (one byte string
  per certificate) and the private key. An \<^verbatim>\<open>x509.CertPool\<close> is the list of the
  certificates added to it.
\<close>

datatype Certificate = Certificate "string list" string

datatype CertPool = CertPool "string list"

record world =
  Now :: time
  LoadX509KeyPair :: "string \<Rightarrow> string \<Rightarrow> error + Certificate"
  ReadFile :: "string \<Rightarrow> error + string"
  AppendCertsFromPEM :: "string \<Rightarrow> CertPool option"
  WatchFile :: "string \<Rightarrow> error option"

text \<open>The disk operations a call performs, in the order it performs them.\<close>

datatype io =
    IoLoadX509KeyPair string string
  | IoReadFile string
  | IoStartWatching string

subsection \<open>The structs\<close>

record TLSSetting =
  CAFile :: string
  CertFile :: string
  KeyFile :: string
  MinVersion :: string
  MaxVersion :: string
  ReloadInterval :: duration

record TLSClientSetting = TLSSetting +
  Insecure :: bool
  InsecureSkipVerify :: bool
  ServerName :: string

record TLSServerSetting = TLSSetting +
  ClientCAFile :: string
  ReloadClientCAFile :: bool

text \<open>
  The reloader. \<open>cert\<close> is a pointer in Go, \<open>None\<close> is nil. The field \<^verbatim>\<open>lock\<close> is
  left out (see above).
\<close>

record certReloader =
  CertFile :: string
  KeyFile :: string
  ReloadInterval :: duration
  nextReload :: time
  cert :: "Certificate option"

subsection \<open>Protocol versions\<close>

text \<open>The version constants of \<^verbatim>\<open>crypto/tls\<close>; they are \<^verbatim>\<open>uint16\<close> values.\<close>

definition VersionTLS10 :: "16 word" where "VersionTLS10 = 0x0301"
definition VersionTLS11 :: "16 word" where "VersionTLS11 = 0x0302"
definition VersionTLS12 :: "16 word" where "VersionTLS12 = 0x0303"
definition VersionTLS13 :: "16 word" where "VersionTLS13 = 0x0304"

definition defaultMinTLSVersion :: "16 word" where
  "defaultMinTLSVersion = VersionTLS12"

definition defaultMaxTLSVersion :: "16 word" where
  "defaultMaxTLSVersion = 0"

definition tlsVersions :: "string \<rightharpoonup> 16 word" where
  "tlsVersions = map_of
     [(''1.0'', VersionTLS10),
      (''1.1'', VersionTLS11),
      (''1.2'', VersionTLS12),
      (''1.3'', VersionTLS13)]"

text \<open>
  \<^verbatim>\<open>convertVersion\<close> returns \<^verbatim>\<open>(0, err)\<close> on failure; the 0 is dropped here,
  the result is \<open>Inl err\<close>.
\<close>

definition convertVersion :: "string \<Rightarrow> 16 word \<Rightarrow> error + 16 word" where
  "convertVersion v defaultVersion =
     (if v = [] then Inr defaultVersion
      else (case tlsVersions v of
              None \<Rightarrow> Inl (Errorf ''unsupported TLS version: %q'' [v])
            | Some val \<Rightarrow> Inr val))"

subsection \<open>The client CA reloader\<close>

text \<open>
  Modelled from the spec: the declaration of \<^verbatim>\<open>clientCAsFileReloader\<close> is not
  among the sources; the server builder reads its field \<^verbatim>\<open>certPool\<close>. The spec
  (3, TrustStoreReloader state) gives it the CA file path, the cached trust pool (a
  pointer in Go) and a background watch task when reload-on-change is enabled;
  \<open>watching\<close> says whether that task runs.
\<close>

record clientCAsFileReloader =
  clientCAsFile :: string
  certPool :: "CertPool option"
  watching :: bool

subsection \<open>The TLS configuration\<close>

text \<open>
  The fields of \<^verbatim>\<open>tls.Config\<close> that this package sets; a field the code leaves
  out of the struct literal has Go's zero value. The three callbacks are closures
  over a reloader: the field holds the reloader the closure calls (\<open>None\<close> is a nil
  function).
\<close>

datatype ClientAuthType =
    NoClientCert
  | RequestClientCert
  | RequireAnyClientCert
  | VerifyClientCertIfGiven
  | RequireAndVerifyClientCert

record Config =
  RootCAs :: "CertPool option"
  GetCertificate :: "certReloader option"
  GetClientCertificate :: "certReloader option"
  MinVersion :: "16 word"
  MaxVersion :: "16 word"
  ServerName :: string
  InsecureSkipVerify :: bool
  ClientCAs :: "CertPool option"
  ClientAuth :: ClientAuthType
  GetConfigForClient :: "clientCAsFileReloader option"

subsection \<open>The certificate reloader\<close>

definition newCertReloader ::
  "world \<Rightarrow> string \<Rightarrow> string \<Rightarrow> duration
    \<Rightarrow> (error + certReloader) \<times> io list" where
  "newCertReloader w certFile keyFile reloadInterval =
     (case LoadX509KeyPair w certFile keyFile of
        Inl err \<Rightarrow> (Inl err, [IoLoadX509KeyPair certFile keyFile])
      | Inr c \<Rightarrow>
          (Inr \<lparr>certReloader.CertFile = certFile,
                certReloader.KeyFile = keyFile,
                certReloader.ReloadInterval = reloadInterval,
                nextReload = Add (Now w) reloadInterval,
                cert = Some c\<rparr>,
           [IoLoadX509KeyPair certFile keyFile]))"

text \<open>
  \<^verbatim>\<open>GetCertificate\<close> returns the pair of Go (\<open>Inl err\<close> for \<^verbatim>\<open>(nil, err)\<close>,
  \<open>Inr p\<close> for \<^verbatim>\<open>(p, nil)\<close>), the reloader after the call, and the disk
  operations of the call.
\<close>

definition GetCertificate ::
  "world \<Rightarrow> certReloader
    \<Rightarrow> (error + Certificate option) \<times> certReloader \<times> io list" where
  "GetCertificate w r =
     (let now = Now w in
      if certReloader.ReloadInterval r \<noteq> 0 \<and> Before (nextReload r) now then
        (case LoadX509KeyPair w (certReloader.CertFile r) (certReloader.KeyFile r) of
           Inl err \<Rightarrow>
             (Inl (Wrapf ''failed to load TLS cert and key: %w'' [] err), r,
              [IoLoadX509KeyPair (certReloader.CertFile r) (certReloader.KeyFile r)])
         | Inr c \<Rightarrow>
             (Inr (Some c),
              r\<lparr>cert := Some c, nextReload := Add now (certReloader.ReloadInterval r)\<rparr>,
              [IoLoadX509KeyPair (certReloader.CertFile r) (certReloader.KeyFile r)]))
      else (Inr (cert r), r, []))"

subsection \<open>Loading the configuration\<close>

definition loadCert ::
  "world \<Rightarrow> string \<Rightarrow> (error + CertPool) \<times> io list" where
  "loadCert w caPath =
     (case ReadFile w caPath of
        Inl err \<Rightarrow> (Inl (Wrapf ''failed to load CA %s: %w'' [caPath] err), [IoReadFile caPath])
      | Inr caPEM \<Rightarrow>
          (case AppendCertsFromPEM w caPEM of
             None \<Rightarrow> (Inl (Errorf ''failed to parse CA %s'' [caPath]), [IoReadFile caPath])
           | Some pool \<Rightarrow> (Inr pool, [IoReadFile caPath])))"

text \<open>
  \<^verbatim>\<open>TLSSetting.loadTLSConfig\<close>. The method is promoted to the two structs that
  embed \<open>TLSSetting\<close>, so it takes any extension of the record.
\<close>

definition loadTLSConfig ::
  "world \<Rightarrow> 'a TLSSetting_scheme
    \<Rightarrow> (error + Config) \<times> io list" where
  "loadTLSConfig w c =
     (case (if length (CAFile c) \<noteq> 0 then
              (case loadCert w (CAFile c) of
                 (Inl err, t) \<Rightarrow> (Inl (Wrapf ''failed to load CA CertPool: %w'' [] err), t)
               | (Inr pool, t) \<Rightarrow> (Inr (Some pool), t))
            else (Inr None, [])) of
        (Inl err, t1) \<Rightarrow> (Inl err, t1)
      | (Inr certPool', t1) \<Rightarrow>
          if (TLSSetting.CertFile c = [] \<and> TLSSetting.KeyFile c \<noteq> []) \<or>
             (TLSSetting.CertFile c \<noteq> [] \<and> TLSSetting.KeyFile c = [])
          then (Inl (New ''for auth via TLS, either both certificate and key must be supplied, or neither''), t1)
          else
            (case (if TLSSetting.CertFile c \<noteq> [] \<and> TLSSetting.KeyFile c \<noteq> [] then
                     (case newCertReloader w (TLSSetting.CertFile c) (TLSSetting.KeyFile c)
                             (TLSSetting.ReloadInterval c) of
                        (Inl err, t) \<Rightarrow>
                          (Inl (Wrapf ''failed to load TLS cert and key: %w'' [] err), t)
                      | (Inr certReloader, t) \<Rightarrow> (Inr (Some certReloader), t))
                   else (Inr None, [])) of
               (Inl err, t2) \<Rightarrow> (Inl err, t1 @ t2)
             | (Inr getCertificate, t2) \<Rightarrow>
                 (case convertVersion (TLSSetting.MinVersion c) defaultMinTLSVersion of
                    Inl err \<Rightarrow> (Inl (Wrapf ''invalid TLS min_version: %w'' [] err), t1 @ t2)
                  | Inr minTLS \<Rightarrow>
                      (case convertVersion (TLSSetting.MaxVersion c) defaultMaxTLSVersion of
                         Inl err \<Rightarrow>
                           (Inl (Wrapf ''invalid TLS max_version: %w'' [] err), t1 @ t2)
                       | Inr maxTLS \<Rightarrow>
                           (Inr \<lparr>RootCAs = certPool',
                                 Config.GetCertificate = getCertificate,
                                 GetClientCertificate = getCertificate,
                                 Config.MinVersion = minTLS,
                                 Config.MaxVersion = maxTLS,
                                 Config.ServerName = [],
                                 Config.InsecureSkipVerify = False,
                                 ClientCAs = None,
                                 ClientAuth = NoClientCert,
                                 GetConfigForClient = None\<rparr>,
                            t1 @ t2)))))"

text \<open>
  \<^verbatim>\<open>TLSClientSetting.LoadTLSConfig\<close>. The result is a pointer: \<open>Inr None\<close> is Go's
  \<^verbatim>\<open>(nil, nil)\<close>.
\<close>

definition TLSClientSetting_LoadTLSConfig ::
  "world \<Rightarrow> TLSClientSetting
    \<Rightarrow> (error + Config option) \<times> io list" where
  "TLSClientSetting_LoadTLSConfig w c =
     (if Insecure c \<and> CAFile c = [] then (Inr None, [])
      else
        (case loadTLSConfig w c of
           (Inl err, t) \<Rightarrow> (Inl (Wrapf ''failed to load TLS config: %w'' [] err), t)
         | (Inr tlsCfg, t) \<Rightarrow>
             (Inr (Some (tlsCfg\<lparr>Config.ServerName := TLSClientSetting.ServerName c,
                                 Config.InsecureSkipVerify :=
                                   TLSClientSetting.InsecureSkipVerify c\<rparr>)), t)))"

definition loadClientCAFile ::
  "world \<Rightarrow> TLSServerSetting \<Rightarrow> (error + CertPool) \<times> io list" where
  "loadClientCAFile w c = loadCert w (ClientCAFile c)"

text \<open>
  Modelled from the spec: \<^verbatim>\<open>newClientCAsReloader\<close> and \<^verbatim>\<open>startWatching\<close> are
  called by the server builder and their file is not among the sources. The spec
  (4.3, construction): given the client-CA file path and the owning server policy, the
  constructor loads and parses the file into a certificate trust pool, and fails with
  \<^verbatim>\<open>TrustStoreLoadError\<close> on read or parse failure. The load goes through the
  policy's \<open>loadClientCAFile\<close>; no watch runs after construction.
\<close>

definition newClientCAsReloader ::
  "world \<Rightarrow> string \<Rightarrow> TLSServerSetting
    \<Rightarrow> (error + clientCAsFileReloader) \<times> io list" where
  "newClientCAsReloader w clientCAsFile' loader =
     (case loadClientCAFile w loader of
        (Inl err, t) \<Rightarrow> (Inl (Wrapf ''TrustStoreLoadError: %w'' [] err), t)
      | (Inr pool, t) \<Rightarrow>
          (Inr \<lparr>clientCAsFile = clientCAsFile', certPool = Some pool, watching = False\<rparr>, t))"

text \<open>
  Modelled from the spec: \<^verbatim>\<open>startWatching\<close> (4.3, watch mode) starts the background
  task that subscribes to change notifications for the CA file; the builder handles
  its failure, so it returns an error when the subscription is refused.
\<close>

definition startWatching ::
  "world \<Rightarrow> clientCAsFileReloader
    \<Rightarrow> error option \<times> clientCAsFileReloader \<times> io list" where
  "startWatching w r =
     (case WatchFile w (clientCAsFile r) of
        Some err \<Rightarrow> (Some err, r, [IoStartWatching (clientCAsFile r)])
      | None \<Rightarrow> (None, r\<lparr>watching := True\<rparr>, [IoStartWatching (clientCAsFile r)]))"

text \<open>\<^verbatim>\<open>TLSServerSetting.LoadTLSConfig\<close>.\<close>

definition TLSServerSetting_LoadTLSConfig ::
  "world \<Rightarrow> TLSServerSetting
    \<Rightarrow> (error + Config option) \<times> io list" where
  "TLSServerSetting_LoadTLSConfig w c =
     (case loadTLSConfig w c of
        (Inl err, t) \<Rightarrow> (Inl (Wrapf ''failed to load TLS config: %w'' [] err), t)
      | (Inr tlsCfg, t) \<Rightarrow>
          if ClientCAFile c \<noteq> [] then
            (case newClientCAsReloader w (ClientCAFile c) c of
               (Inl err, t2) \<Rightarrow> (Inl err, t @ t2)
             | (Inr reloader, t2) \<Rightarrow>
                 if ReloadClientCAFile c then
                   (case startWatching w reloader of
                      (Some err, reloader', t3) \<Rightarrow> (Inl err, t @ t2 @ t3)
                    | (None, reloader', t3) \<Rightarrow>
                        (Inr (Some (tlsCfg\<lparr>GetConfigForClient := Some reloader',
                                            ClientCAs := certPool reloader',
                                            ClientAuth := RequireAndVerifyClientCert\<rparr>)),
                         t @ t2 @ t3))
                 else
                   (Inr (Some (tlsCfg\<lparr>ClientCAs := certPool reloader,
                                       ClientAuth := RequireAndVerifyClientCert\<rparr>)),
                    t @ t2))
          else (Inr (Some tlsCfg), t))"

subsection \<open>Sequences of calls\<close>

text \<open>
  The handshake layer calls \<open>GetCertificate\<close> again and again on the same reloader.
  \<open>calls ws r\<close> makes one call per element of \<open>ws\<close>, the world at the moment of
  that call, each on the reloader the call before left; it returns the results, the
  last reloader and all disk operations.
\<close>

fun calls ::
  "world list \<Rightarrow> certReloader \<Rightarrow> (error + Certificate option) list \<times> certReloader \<times> io list" where
  "calls [] r = ([], r, [])"
| "calls (w # ws) r =
     (case GetCertificate w r of
        (res, r', t) \<Rightarrow> (case calls ws r' of (rs, r'', ts) \<Rightarrow> (res # rs, r'', t @ ts)))"

subsection \<open>Example worlds\<close>

text \<open>
  A disk with the files \<^verbatim>\<open>cert.pem\<close>, \<^verbatim>\<open>key.pem\<close> and \<^verbatim>\<open>ca.pem\<close>, at a given
  time (\<open>disk1\<close>); the same disk after the identity was rotated (\<open>disk2\<close>) and
  after the identity files were removed (\<open>disk_gone\<close>); and the reloader built on
  \<open>disk1\<close> at time 0 with a reload interval of 5.
\<close>

definition identity1 :: Certificate where
  "identity1 = Certificate [''cert-1''] ''key-1''"

definition identity2 :: Certificate where
  "identity2 = Certificate [''cert-2''] ''key-2''"

definition disk1 :: "time \<Rightarrow> world" where
  "disk1 now =
     \<lparr>Now = now,
      LoadX509KeyPair = (\<lambda>certFile keyFile.
         if certFile = ''cert.pem'' \<and> keyFile = ''key.pem'' then Inr identity1
         else Inl (New ''open: no such file or directory'')),
      ReadFile = (\<lambda>path.
         if path = ''ca.pem'' then Inr ''PEM-1''
         else Inl (New ''open: no such file or directory'')),
      AppendCertsFromPEM = (\<lambda>pem. if pem = ''PEM-1'' then Some (CertPool [''ca-1'']) else None),
      WatchFile = (\<lambda>path. None)\<rparr>"

definition disk2 :: "time \<Rightarrow> world" where
  "disk2 now =
     (disk1 now)\<lparr>LoadX509KeyPair := (\<lambda>certFile keyFile.
         if certFile = ''cert.pem'' \<and> keyFile = ''key.pem'' then Inr identity2
         else Inl (New ''open: no such file or directory''))\<rparr>"

definition disk_gone :: "time \<Rightarrow> world" where
  "disk_gone now =
     (disk1 now)\<lparr>LoadX509KeyPair := (\<lambda>certFile keyFile.
         Inl (New ''open: no such file or directory''))\<rparr>"

definition reloader1 :: certReloader where
  "reloader1 =
     \<lparr>certReloader.CertFile = ''cert.pem'', certReloader.KeyFile = ''key.pem'',
      certReloader.ReloadInterval = 5, nextReload = 5, cert = Some identity1\<rparr>"

text \<open>
  A client policy and a server policy over these files, both complete: CA file,
  certificate and key.
\<close>

definition client1 :: TLSClientSetting where
  "client1 =
     \<lparr>CAFile = ''ca.pem'', TLSSetting.CertFile = ''cert.pem'', TLSSetting.KeyFile = ''key.pem'',
      TLSSetting.MinVersion = [], TLSSetting.MaxVersion = ''1.3'',
      TLSSetting.ReloadInterval = 5,
      Insecure = False, TLSClientSetting.InsecureSkipVerify = True,
      TLSClientSetting.ServerName = ''collector''\<rparr>"

definition server1 :: TLSServerSetting where
  "server1 =
     \<lparr>CAFile = ''ca.pem'', TLSSetting.CertFile = ''cert.pem'', TLSSetting.KeyFile = ''key.pem'',
      TLSSetting.MinVersion = [], TLSSetting.MaxVersion = [],
      TLSSetting.ReloadInterval = 5,
      ClientCAFile = ''ca.pem'', ReloadClientCAFile = False\<rparr>"

section \<open>Properties of the certificate reloader\<close>

subsection \<open>The three branches of \<open>GetCertificate\<close>\<close>

lemma GetCertificate_not_due:
  "\<not> (certReloader.ReloadInterval r \<noteq> 0 \<and> nextReload r < Now w) \<Longrightarrow>
   GetCertificate w r = (Inr (cert r), r, [])"
  by (auto simp add: GetCertificate_def Before_def Let_def)

lemma GetCertificate_due_fail:
  "certReloader.ReloadInterval r \<noteq> 0 \<Longrightarrow> nextReload r < Now w \<Longrightarrow>
   LoadX509KeyPair w (certReloader.CertFile r) (certReloader.KeyFile r) = Inl err \<Longrightarrow>
   GetCertificate w r =
     (Inl (Wrapf ''failed to load TLS cert and key: %w'' [] err), r,
      [IoLoadX509KeyPair (certReloader.CertFile r) (certReloader.KeyFile r)])"
  by (simp add: GetCertificate_def Before_def Let_def)

lemma GetCertificate_due_ok:
  "certReloader.ReloadInterval r \<noteq> 0 \<Longrightarrow> nextReload r < Now w \<Longrightarrow>
   LoadX509KeyPair w (certReloader.CertFile r) (certReloader.KeyFile r) = Inr c \<Longrightarrow>
   GetCertificate w r =
     (Inr (Some c),
      r\<lparr>cert := Some c, nextReload := Add (Now w) (certReloader.ReloadInterval r)\<rparr>,
      [IoLoadX509KeyPair (certReloader.CertFile r) (certReloader.KeyFile r)])"
  by (simp add: GetCertificate_def Before_def Let_def)

lemma newCertReloader_Inr:
  "newCertReloader w certFile keyFile d = (Inr r, t) \<Longrightarrow>
   \<exists>c. LoadX509KeyPair w certFile keyFile = Inr c \<and>
     r = \<lparr>certReloader.CertFile = certFile, certReloader.KeyFile = keyFile,
          certReloader.ReloadInterval = d, nextReload = Add (Now w) d, cert = Some c\<rparr>"
  by (auto simp add: newCertReloader_def split: sum.splits)

lemma newCertReloader_disk1:
  "newCertReloader (disk1 0) ''cert.pem'' ''key.pem'' 5 =
     (Inr reloader1, [IoLoadX509KeyPair ''cert.pem'' ''key.pem''])"
  by (simp add: newCertReloader_def disk1_def Add_def reloader1_def)

subsection \<open>When the files are read again\<close>

text \<open>
  C1 (as amended). A call of \<open>GetCertificate\<close> loads the pair from disk exactly when
  the reload interval is not zero and the current time is strictly after the stored
  next-reload time (\<^verbatim>\<open>r.nextReload.Before(now)\<close>); at the next-reload time itself
  nothing is read. With a reload interval of zero no call ever reads the files: any
  sequence of calls, in whatever worlds, returns the cached identity each time,
  performs no disk operation and leaves the reloader as it was.
\<close>

theorem GetCertificate_reads_iff_due:
  "snd (snd (GetCertificate w r)) =
     (if certReloader.ReloadInterval r \<noteq> 0 \<and> nextReload r < Now w
      then [IoLoadX509KeyPair (certReloader.CertFile r) (certReloader.KeyFile r)]
      else [])
   \<and> (certReloader.ReloadInterval r = 0 \<longrightarrow>
        calls ws r = (replicate (length ws) (Inr (cert r)), r, []))"
proof
  show "snd (snd (GetCertificate w r)) =
     (if certReloader.ReloadInterval r \<noteq> 0 \<and> nextReload r < Now w
      then [IoLoadX509KeyPair (certReloader.CertFile r) (certReloader.KeyFile r)]
      else [])"
    by (cases "LoadX509KeyPair w (certReloader.CertFile r) (certReloader.KeyFile r)")
       (simp_all add: GetCertificate_due_fail GetCertificate_due_ok GetCertificate_not_due)
next
  show "certReloader.ReloadInterval r = 0 \<longrightarrow>
      calls ws r = (replicate (length ws) (Inr (cert r)), r, [])"
  proof
    assume z: "certReloader.ReloadInterval r = 0"
    show "calls ws r = (replicate (length ws) (Inr (cert r)), r, [])"
      by (induction ws) (simp_all add: GetCertificate_not_due z)
  qed
qed

text \<open>
  The reloader of the example with its interval set to zero, called after the
  identity was rotated and again after the files were removed: both calls return
  the identity loaded at construction and read nothing.
\<close>

theorem GetCertificate_reads_iff_due_witness:
  "certReloader.ReloadInterval (reloader1\<lparr>certReloader.ReloadInterval := 0\<rparr>) = 0
   \<and> calls [disk2 100, disk_gone 200] (reloader1\<lparr>certReloader.ReloadInterval := 0\<rparr>) =
       ([Inr (Some identity1), Inr (Some identity1)],
        reloader1\<lparr>certReloader.ReloadInterval := 0\<rparr>, [])"
  using GetCertificate_reads_iff_due
    [of "disk2 100" "reloader1\<lparr>certReloader.ReloadInterval := 0\<rparr>" "[disk2 100, disk_gone 200]"]
  by (simp add: reloader1_def)

text \<open>
  C1 as stated fails at the next-reload time itself: the interval is not zero, the
  current time (5) is at the stored next-reload time (5), the identity on disk has
  changed, and the call reads nothing and returns the old identity.
\<close>

theorem GetCertificate_at_nextReload_counterexample:
  "certReloader.ReloadInterval reloader1 \<noteq> 0
   \<and> nextReload reloader1 \<le> Now (disk2 5)
   \<and> GetCertificate (disk2 5) reloader1 = (Inr (Some identity1), reloader1, [])"
  by (simp add: GetCertificate_def Before_def reloader1_def disk2_def disk1_def)

subsection \<open>A reload that fails\<close>

lemma GetCertificate_cert_not_None:
  "cert r \<noteq> None \<Longrightarrow> cert (fst (snd (GetCertificate w r))) \<noteq> None"
  by (auto simp add: GetCertificate_def Let_def split: sum.splits)

lemma calls_cert_not_None:
  "cert r \<noteq> None \<Longrightarrow> cert (fst (snd (calls ws r))) \<noteq> None"
proof (induction ws arbitrary: r)
  case Nil
  then show ?case by simp
next
  case (Cons w ws)
  from Cons.prems have "cert (fst (snd (GetCertificate w r))) \<noteq> None"
    by (rule GetCertificate_cert_not_None)
  then have "cert (fst (snd (calls ws (fst (snd (GetCertificate w r)))))) \<noteq> None"
    by (rule Cons.IH)
  then show ?case by (simp add: split_beta)
qed

text \<open>
  C2. Let \<open>r\<close> be a reloader that \<open>newCertReloader\<close> returned, after any sequence
  of calls of \<open>GetCertificate\<close>. When a reload is due and the load from disk fails,
  \<open>GetCertificate\<close> returns the load's error, wrapped, and the cached identity after
  the call is the one cached before it, which is not nil.
\<close>

theorem failed_reload_keeps_identity:
  assumes "newCertReloader w0 certFile keyFile d = (Inr r0, t0)"
    and "r = fst (snd (calls ws r0))"
    and "certReloader.ReloadInterval r \<noteq> 0" and "nextReload r < Now w"
    and "LoadX509KeyPair w (certReloader.CertFile r) (certReloader.KeyFile r) = Inl err"
  shows "fst (GetCertificate w r) = Inl (Wrapf ''failed to load TLS cert and key: %w'' [] err)
    \<and> cert (fst (snd (GetCertificate w r))) = cert r \<and> cert r \<noteq> None"
proof -
  from assms(1) have "cert r0 \<noteq> None"
    by (auto dest: newCertReloader_Inr)
  then have "cert r \<noteq> None"
    unfolding assms(2) by (rule calls_cert_not_None)
  with GetCertificate_due_fail [OF assms(3,4,5)] show ?thesis by simp
qed

text \<open>
  The example reloader, called once at time 6 when the rotated identity is on disk
  (a reload that succeeds), then at time 12 when the files are gone: the call fails
  and the rotated identity stays cached.
\<close>

theorem failed_reload_keeps_identity_witness:
  "newCertReloader (disk1 0) ''cert.pem'' ''key.pem'' 5 =
      (Inr reloader1, [IoLoadX509KeyPair ''cert.pem'' ''key.pem''])
   \<and> fst (snd (calls [disk2 6] reloader1)) =
       reloader1\<lparr>cert := Some identity2, nextReload := 11\<rparr>
   \<and> nextReload (reloader1\<lparr>cert := Some identity2, nextReload := 11\<rparr>) < Now (disk_gone 12)
   \<and> LoadX509KeyPair (disk_gone 12) ''cert.pem'' ''key.pem'' =
        Inl (New ''open: no such file or directory'')
   \<and> fst (GetCertificate (disk_gone 12) (reloader1\<lparr>cert := Some identity2, nextReload := 11\<rparr>)) =
        Inl (Wrapf ''failed to load TLS cert and key: %w'' []
               (New ''open: no such file or directory''))
   \<and> cert (fst (snd (GetCertificate (disk_gone 12)
        (reloader1\<lparr>cert := Some identity2, nextReload := 11\<rparr>)))) = Some identity2"
proof -
  let ?r = "reloader1\<lparr>cert := Some identity2, nextReload := 11\<rparr>"
  have ok: "GetCertificate (disk2 6) reloader1 =
      (Inr (Some identity2), ?r, [IoLoadX509KeyPair ''cert.pem'' ''key.pem''])"
    by (simp add: GetCertificate_def Before_def Add_def reloader1_def disk2_def disk1_def)
  then have run: "?r = fst (snd (calls [disk2 6] reloader1))"
    by simp
  have h3: "certReloader.ReloadInterval ?r \<noteq> 0"
    and h4: "nextReload ?r < Now (disk_gone 12)"
    and h5: "LoadX509KeyPair (disk_gone 12) (certReloader.CertFile ?r) (certReloader.KeyFile ?r) =
        Inl (New ''open: no such file or directory'')"
    and l: "LoadX509KeyPair (disk_gone 12) ''cert.pem'' ''key.pem'' =
        Inl (New ''open: no such file or directory'')"
    by (simp_all add: reloader1_def disk_gone_def disk1_def)
  from failed_reload_keeps_identity [OF newCertReloader_disk1 run h3 h4 h5]
  have "fst (GetCertificate (disk_gone 12) ?r) =
        Inl (Wrapf ''failed to load TLS cert and key: %w'' []
               (New ''open: no such file or directory''))"
    and "cert (fst (snd (GetCertificate (disk_gone 12) ?r))) = Some identity2"
    by simp_all
  with newCertReloader_disk1 run [symmetric] h4 l show ?thesis
    by (intro conjI)
qed

text \<open>
  A run of calls that are all due and all fail: every call attempts the load and
  returns its error, and the reloader stays as it was.
\<close>

lemma calls_failing:
  assumes "certReloader.ReloadInterval r \<noteq> 0"
    and "\<forall>w \<in> set ws. nextReload r < Now w \<and>
           isl (LoadX509KeyPair w (certReloader.CertFile r) (certReloader.KeyFile r))"
  shows "calls ws r =
     (map (\<lambda>w. Inl (Wrapf ''failed to load TLS cert and key: %w'' []
              (projl (LoadX509KeyPair w (certReloader.CertFile r) (certReloader.KeyFile r))))) ws,
      r,
      replicate (length ws)
        (IoLoadX509KeyPair (certReloader.CertFile r) (certReloader.KeyFile r)))"
  using assms(2)
proof (induction ws)
  case Nil
  then show ?case by simp
next
  case (Cons w ws)
  from Cons.prems have due: "nextReload r < Now w"
    and "isl (LoadX509KeyPair w (certReloader.CertFile r) (certReloader.KeyFile r))"
    by simp_all
  then have l: "LoadX509KeyPair w (certReloader.CertFile r) (certReloader.KeyFile r) =
      Inl (projl (LoadX509KeyPair w (certReloader.CertFile r) (certReloader.KeyFile r)))"
    by simp
  from Cons.prems have "calls ws r =
     (map (\<lambda>w. Inl (Wrapf ''failed to load TLS cert and key: %w'' []
              (projl (LoadX509KeyPair w (certReloader.CertFile r) (certReloader.KeyFile r))))) ws,
      r,
      replicate (length ws)
        (IoLoadX509KeyPair (certReloader.CertFile r) (certReloader.KeyFile r)))"
    by (intro Cons.IH) simp
  with GetCertificate_due_fail [OF assms(1) due l] show ?case by simp
qed

text \<open>
  C9. A reload is due at the call made in \<open>w0\<close>, the clock does not go back over
  the later calls \<open>ws\<close>, and the pair cannot be loaded in any of these worlds. Then
  the first call returns an error and the reloader it leaves is the reloader it
  found, next-reload time included; every one of the calls attempts the load (one
  disk operation per call) and returns an error, and the reloader after all of them
  is still the first one. A later due call whose load succeeds returns the loaded
  pair and updates the cached certificate and the next-reload time, nothing else.
\<close>

theorem failed_reload_changes_nothing:
  assumes "certReloader.ReloadInterval r \<noteq> 0" and "nextReload r < Now w0"
    and "sorted (map Now (w0 # ws))"
    and "\<forall>w \<in> set (w0 # ws).
           isl (LoadX509KeyPair w (certReloader.CertFile r) (certReloader.KeyFile r))"
  shows "GetCertificate w0 r =
       (Inl (Wrapf ''failed to load TLS cert and key: %w'' []
          (projl (LoadX509KeyPair w0 (certReloader.CertFile r) (certReloader.KeyFile r)))),
        r, [IoLoadX509KeyPair (certReloader.CertFile r) (certReloader.KeyFile r)])
     \<and> calls (w0 # ws) r =
       (map (\<lambda>w. Inl (Wrapf ''failed to load TLS cert and key: %w'' []
          (projl (LoadX509KeyPair w (certReloader.CertFile r) (certReloader.KeyFile r)))))
          (w0 # ws),
        r,
        replicate (Suc (length ws))
          (IoLoadX509KeyPair (certReloader.CertFile r) (certReloader.KeyFile r)))
     \<and> (nextReload r < Now w' \<and>
         LoadX509KeyPair w' (certReloader.CertFile r) (certReloader.KeyFile r) = Inr c \<longrightarrow>
         GetCertificate w' (fst (snd (calls (w0 # ws) r))) =
           (Inr (Some c),
            r\<lparr>cert := Some c, nextReload := Add (Now w') (certReloader.ReloadInterval r)\<rparr>,
            [IoLoadX509KeyPair (certReloader.CertFile r) (certReloader.KeyFile r)]))"
proof -
  from assms(2,3) have due: "\<forall>w \<in> set (w0 # ws). nextReload r < Now w"
    by auto
  with assms(4) have all: "\<forall>w \<in> set (w0 # ws). nextReload r < Now w \<and>
      isl (LoadX509KeyPair w (certReloader.CertFile r) (certReloader.KeyFile r))"
    by blast
  from assms(4) have "LoadX509KeyPair w0 (certReloader.CertFile r) (certReloader.KeyFile r) =
      Inl (projl (LoadX509KeyPair w0 (certReloader.CertFile r) (certReloader.KeyFile r)))"
    by simp
  from GetCertificate_due_fail [OF assms(1,2) this] have one: "GetCertificate w0 r =
       (Inl (Wrapf ''failed to load TLS cert and key: %w'' []
          (projl (LoadX509KeyPair w0 (certReloader.CertFile r) (certReloader.KeyFile r)))),
        r, [IoLoadX509KeyPair (certReloader.CertFile r) (certReloader.KeyFile r)])" .
  from calls_failing [OF assms(1) all] have run: "calls (w0 # ws) r =
       (map (\<lambda>w. Inl (Wrapf ''failed to load TLS cert and key: %w'' []
          (projl (LoadX509KeyPair w (certReloader.CertFile r) (certReloader.KeyFile r)))))
          (w0 # ws),
        r,
        replicate (Suc (length ws))
          (IoLoadX509KeyPair (certReloader.CertFile r) (certReloader.KeyFile r)))"
    by simp
  have after: "nextReload r < Now w' \<and>
         LoadX509KeyPair w' (certReloader.CertFile r) (certReloader.KeyFile r) = Inr c \<longrightarrow>
         GetCertificate w' (fst (snd (calls (w0 # ws) r))) =
           (Inr (Some c),
            r\<lparr>cert := Some c, nextReload := Add (Now w') (certReloader.ReloadInterval r)\<rparr>,
            [IoLoadX509KeyPair (certReloader.CertFile r) (certReloader.KeyFile r)])"
    by (simp only: run fst_conv snd_conv) (simp add: GetCertificate_due_ok assms(1))
  from one run after show ?thesis by blast
qed

text \<open>
  The example reloader (next reload at 5) while the files are gone, called at times
  6, 7 and 20, then at 21 when the rotated identity is on disk.
\<close>

theorem failed_reload_changes_nothing_witness:
  "certReloader.ReloadInterval reloader1 \<noteq> 0 \<and> nextReload reloader1 < Now (disk_gone 6)
   \<and> sorted (map Now [disk_gone 6, disk_gone 7, disk_gone 20])
   \<and> isl (LoadX509KeyPair (disk_gone 6) ''cert.pem'' ''key.pem'')
   \<and> isl (LoadX509KeyPair (disk_gone 7) ''cert.pem'' ''key.pem'')
   \<and> isl (LoadX509KeyPair (disk_gone 20) ''cert.pem'' ''key.pem'')
   \<and> calls [disk_gone 6, disk_gone 7, disk_gone 20] reloader1 =
       ([Inl (Wrapf ''failed to load TLS cert and key: %w'' []
                (New ''open: no such file or directory'')),
         Inl (Wrapf ''failed to load TLS cert and key: %w'' []
                (New ''open: no such file or directory'')),
         Inl (Wrapf ''failed to load TLS cert and key: %w'' []
                (New ''open: no such file or directory''))],
        reloader1,
        [IoLoadX509KeyPair ''cert.pem'' ''key.pem'', IoLoadX509KeyPair ''cert.pem'' ''key.pem'',
         IoLoadX509KeyPair ''cert.pem'' ''key.pem''])
   \<and> nextReload reloader1 < Now (disk2 21)
   \<and> LoadX509KeyPair (disk2 21) ''cert.pem'' ''key.pem'' = Inr identity2
   \<and> GetCertificate (disk2 21)
        (fst (snd (calls [disk_gone 6, disk_gone 7, disk_gone 20] reloader1))) =
       (Inr (Some identity2), reloader1\<lparr>cert := Some identity2, nextReload := 26\<rparr>,
        [IoLoadX509KeyPair ''cert.pem'' ''key.pem''])"
proof -
  have h1: "certReloader.ReloadInterval reloader1 \<noteq> 0"
    and h2: "nextReload reloader1 < Now (disk_gone 6)"
    and h3: "sorted (map Now [disk_gone 6, disk_gone 7, disk_gone 20])"
    and h5: "nextReload reloader1 < Now (disk2 21)"
    by (simp_all add: disk_gone_def disk2_def disk1_def reloader1_def)
  have h4: "\<forall>w \<in> set [disk_gone 6, disk_gone 7, disk_gone 20].
      isl (LoadX509KeyPair w (certReloader.CertFile reloader1) (certReloader.KeyFile reloader1))"
    by (simp add: disk_gone_def disk1_def)
  have l: "LoadX509KeyPair (disk_gone n) cf kf = Inl (New ''open: no such file or directory'')"
    for n cf kf
    by (simp add: disk_gone_def disk1_def)
  have l2: "LoadX509KeyPair (disk2 21) ''cert.pem'' ''key.pem'' = Inr identity2"
    and n: "Now (disk2 21) = 21"
    by (simp_all add: disk2_def disk1_def)
  have f: "certReloader.CertFile reloader1 = ''cert.pem''"
    "certReloader.KeyFile reloader1 = ''key.pem''"
    "certReloader.ReloadInterval reloader1 = 5"
    by (simp_all add: reloader1_def)
  note inst = failed_reload_changes_nothing [OF h1 h2 h3 h4, of "disk2 21" identity2]
  from inst [THEN conjunct2, THEN conjunct1]
  have run: "calls [disk_gone 6, disk_gone 7, disk_gone 20] reloader1 =
       ([Inl (Wrapf ''failed to load TLS cert and key: %w'' []
                (New ''open: no such file or directory'')),
         Inl (Wrapf ''failed to load TLS cert and key: %w'' []
                (New ''open: no such file or directory'')),
         Inl (Wrapf ''failed to load TLS cert and key: %w'' []
                (New ''open: no such file or directory''))],
        reloader1,
        [IoLoadX509KeyPair ''cert.pem'' ''key.pem'', IoLoadX509KeyPair ''cert.pem'' ''key.pem'',
         IoLoadX509KeyPair ''cert.pem'' ''key.pem''])"
    by (simp add: l f numeral_3_eq_3 del: calls.simps)
  from inst [THEN conjunct2, THEN conjunct2] h5
  have after: "GetCertificate (disk2 21)
        (fst (snd (calls [disk_gone 6, disk_gone 7, disk_gone 20] reloader1))) =
       (Inr (Some identity2), reloader1\<lparr>cert := Some identity2, nextReload := 26\<rparr>,
        [IoLoadX509KeyPair ''cert.pem'' ''key.pem''])"
    by (simp add: l2 n f Add_def del: calls.simps)
  have fails: "isl (LoadX509KeyPair (disk_gone 6) ''cert.pem'' ''key.pem'')"
    "isl (LoadX509KeyPair (disk_gone 7) ''cert.pem'' ''key.pem'')"
    "isl (LoadX509KeyPair (disk_gone 20) ''cert.pem'' ''key.pem'')"
    by (simp_all add: l)
  from h1 h2 h3 fails run h5 l2 after show ?thesis
    by (intro conjI)
qed

subsection \<open>The first call after construction\<close>

text \<open>
  C7 (as amended). Let \<open>newCertReloader\<close> succeed in the world \<open>w0\<close> with reload
  interval \<open>d\<close>; its next-reload time is the time of construction plus \<open>d\<close>. A
  call of \<open>GetCertificate\<close> at a time not after the time of construction plus
  \<open>d\<close> (or at any time, when \<open>d\<close> is zero) returns exactly the pair that the
  constructor loaded, whatever is on disk at the moment of the call; it reads nothing
  and leaves the reloader as it was. A call after that time, with \<open>d\<close> not zero,
  loads the pair again and returns what the disk holds then, or the load's error. For
  a negative interval the next-reload time lies before the construction, so every
  call made at or after the construction reads the files again.
\<close>

theorem first_call_after_construction:
  assumes "newCertReloader w0 certFile keyFile d = (Inr r, t)"
  shows "\<exists>c. LoadX509KeyPair w0 certFile keyFile = Inr c
     \<and> nextReload r = Now w0 + sint d
     \<and> (d = 0 \<or> Now w1 \<le> Now w0 + sint d \<longrightarrow>
          GetCertificate w1 r = (Inr (Some c), r, []))
     \<and> (d \<noteq> 0 \<and> Now w0 + sint d < Now w1 \<longrightarrow>
          GetCertificate w1 r =
            (case LoadX509KeyPair w1 certFile keyFile of
               Inl err \<Rightarrow>
                 (Inl (Wrapf ''failed to load TLS cert and key: %w'' [] err), r,
                  [IoLoadX509KeyPair certFile keyFile])
             | Inr c' \<Rightarrow>
                 (Inr (Some c'), r\<lparr>cert := Some c', nextReload := Now w1 + sint d\<rparr>,
                  [IoLoadX509KeyPair certFile keyFile])))
     \<and> (sint d < 0 \<and> Now w0 \<le> Now w1 \<longrightarrow>
          snd (snd (GetCertificate w1 r)) = [IoLoadX509KeyPair certFile keyFile])"
proof -
  from assms obtain c where c: "LoadX509KeyPair w0 certFile keyFile = Inr c"
    and r: "r = \<lparr>certReloader.CertFile = certFile, certReloader.KeyFile = keyFile,
          certReloader.ReloadInterval = d, nextReload = Add (Now w0) d, cert = Some c\<rparr>"
    by (blast dest: newCertReloader_Inr)
  from r have f: "certReloader.ReloadInterval r = d" "cert r = Some c"
    "nextReload r = Now w0 + sint d"
    "certReloader.CertFile r = certFile" "certReloader.KeyFile r = keyFile"
    by (simp_all add: Add_def)
  have cached: "d = 0 \<or> Now w1 \<le> Now w0 + sint d \<longrightarrow>
      GetCertificate w1 r = (Inr (Some c), r, [])"
    using GetCertificate_not_due [of r w1] by (auto simp add: f)
  have due: "d \<noteq> 0 \<and> Now w0 + sint d < Now w1 \<longrightarrow>
          GetCertificate w1 r =
            (case LoadX509KeyPair w1 certFile keyFile of
               Inl err \<Rightarrow>
                 (Inl (Wrapf ''failed to load TLS cert and key: %w'' [] err), r,
                  [IoLoadX509KeyPair certFile keyFile])
             | Inr c' \<Rightarrow>
                 (Inr (Some c'), r\<lparr>cert := Some c', nextReload := Now w1 + sint d\<rparr>,
                  [IoLoadX509KeyPair certFile keyFile]))"
    using GetCertificate_due_fail [of r w1] GetCertificate_due_ok [of r w1]
    by (cases "LoadX509KeyPair w1 certFile keyFile") (simp_all add: f Add_def)
  have neg: "sint d < 0 \<and> Now w0 \<le> Now w1 \<longrightarrow>
          snd (snd (GetCertificate w1 r)) = [IoLoadX509KeyPair certFile keyFile]"
  proof
    assume a: "sint d < 0 \<and> Now w0 \<le> Now w1"
    then have "d \<noteq> 0" and "Now w0 + sint d < Now w1" by auto
    with due show "snd (snd (GetCertificate w1 r)) = [IoLoadX509KeyPair certFile keyFile]"
      by (cases "LoadX509KeyPair w1 certFile keyFile") simp_all
  qed
  from c f(3) cached due neg show ?thesis by blast
qed

text \<open>
  A reloader built on \<open>disk1\<close> at time 1000 with interval 5: called at time 1003,
  when the identity on disk is already another one, it returns the identity of the
  construction; called at time 1006 it loads the rotated identity.
\<close>

theorem first_call_after_construction_witness:
  "newCertReloader (disk1 1000) ''cert.pem'' ''key.pem'' 5 =
      (Inr (reloader1\<lparr>nextReload := 1005\<rparr>), [IoLoadX509KeyPair ''cert.pem'' ''key.pem''])
   \<and> LoadX509KeyPair (disk1 1000) ''cert.pem'' ''key.pem'' = Inr identity1
   \<and> Now (disk2 1003) \<le> Now (disk1 1000) + sint (5 :: duration)
   \<and> GetCertificate (disk2 1003) (reloader1\<lparr>nextReload := 1005\<rparr>) =
       (Inr (Some identity1), reloader1\<lparr>nextReload := 1005\<rparr>, [])
   \<and> Now (disk1 1000) + sint (5 :: duration) < Now (disk2 1006)
   \<and> GetCertificate (disk2 1006) (reloader1\<lparr>nextReload := 1005\<rparr>) =
       (Inr (Some identity2), reloader1\<lparr>cert := Some identity2, nextReload := 1011\<rparr>,
        [IoLoadX509KeyPair ''cert.pem'' ''key.pem''])"
proof -
  have c: "newCertReloader (disk1 1000) ''cert.pem'' ''key.pem'' 5 =
      (Inr (reloader1\<lparr>nextReload := 1005\<rparr>), [IoLoadX509KeyPair ''cert.pem'' ''key.pem''])"
    by (simp add: newCertReloader_def disk1_def Add_def reloader1_def)
  have l: "LoadX509KeyPair (disk1 1000) ''cert.pem'' ''key.pem'' = Inr identity1"
    and l2: "LoadX509KeyPair (disk2 1006) ''cert.pem'' ''key.pem'' = Inr identity2"
    and h1: "Now (disk2 1003) \<le> Now (disk1 1000) + sint (5 :: duration)"
    and h2: "Now (disk1 1000) + sint (5 :: duration) < Now (disk2 1006)"
    and n: "Now (disk2 1006) = 1006"
    by (simp_all add: disk1_def disk2_def)
  from first_call_after_construction [OF c, of "disk2 1003"] l h1
  have early: "GetCertificate (disk2 1003) (reloader1\<lparr>nextReload := 1005\<rparr>) =
       (Inr (Some identity1), reloader1\<lparr>nextReload := 1005\<rparr>, [])"
    by auto
  from first_call_after_construction [OF c, of "disk2 1006"] h2
  have "GetCertificate (disk2 1006) (reloader1\<lparr>nextReload := 1005\<rparr>) =
       (case LoadX509KeyPair (disk2 1006) ''cert.pem'' ''key.pem'' of
               Inl err \<Rightarrow>
                 (Inl (Wrapf ''failed to load TLS cert and key: %w'' [] err),
                  reloader1\<lparr>nextReload := 1005\<rparr>,
                  [IoLoadX509KeyPair ''cert.pem'' ''key.pem''])
             | Inr c' \<Rightarrow>
                 (Inr (Some c'),
                  reloader1\<lparr>nextReload := 1005, cert := Some c',
                    nextReload := Now (disk2 1006) + sint (5 :: duration)\<rparr>,
                  [IoLoadX509KeyPair ''cert.pem'' ''key.pem'']))"
    by auto
  then have late: "GetCertificate (disk2 1006) (reloader1\<lparr>nextReload := 1005\<rparr>) =
       (Inr (Some identity2), reloader1\<lparr>cert := Some identity2, nextReload := 1011\<rparr>,
        [IoLoadX509KeyPair ''cert.pem'' ''key.pem''])"
    by (simp add: l2 n)
  from c l h1 early h2 late show ?thesis by (intro conjI)
qed

text \<open>
  C7 as stated fails for a negative interval. The reloader is built at time 1000
  with interval -5 and called right after, at time 1001, when the identity on disk
  has been rotated: the call reads the files and returns the rotated identity, not
  the pair loaded at construction.
\<close>

theorem first_call_negative_interval_counterexample:
  "newCertReloader (disk1 1000) ''cert.pem'' ''key.pem'' (- 5) =
      (Inr (reloader1\<lparr>certReloader.ReloadInterval := - 5, nextReload := 995\<rparr>),
       [IoLoadX509KeyPair ''cert.pem'' ''key.pem''])
   \<and> LoadX509KeyPair (disk1 1000) ''cert.pem'' ''key.pem'' = Inr identity1
   \<and> Now (disk1 1000) \<le> Now (disk2 1001)
   \<and> GetCertificate (disk2 1001)
        (reloader1\<lparr>certReloader.ReloadInterval := - 5, nextReload := 995\<rparr>) =
       (Inr (Some identity2),
        reloader1\<lparr>certReloader.ReloadInterval := - 5, nextReload := 996, cert := Some identity2\<rparr>,
        [IoLoadX509KeyPair ''cert.pem'' ''key.pem''])
   \<and> identity2 \<noteq> identity1"
  by (simp add: newCertReloader_def GetCertificate_def Before_def Add_def reloader1_def
      disk2_def disk1_def identity1_def identity2_def)

section \<open>Properties of the builders\<close>

subsection \<open>What the parts do\<close>

lemma tlsVersions_None:
  "tlsVersions v = None \<longleftrightarrow> v \<notin> {''1.0'', ''1.1'', ''1.2'', ''1.3''}"
  by (auto simp add: tlsVersions_def)

lemma loadCert_trace: "snd (loadCert w p) = [IoReadFile p]"
  by (simp add: loadCert_def split: sum.splits option.splits)

lemma loadTLSConfig_Inr:
  assumes "loadTLSConfig w c = (Inr cfg, t)"
  shows "(if CAFile c = [] then RootCAs cfg = None
          else \<exists>pool. fst (loadCert w (CAFile c)) = Inr pool \<and> RootCAs cfg = Some pool)"
    and "(if TLSSetting.CertFile c = [] \<and> TLSSetting.KeyFile c = []
          then Config.GetCertificate cfg = None \<and> GetClientCertificate cfg = None
          else \<exists>r. fst (newCertReloader w (TLSSetting.CertFile c) (TLSSetting.KeyFile c)
                           (TLSSetting.ReloadInterval c)) = Inr r
                 \<and> Config.GetCertificate cfg = Some r \<and> GetClientCertificate cfg = Some r)"
    and "convertVersion (TLSSetting.MinVersion c) defaultMinTLSVersion = Inr (Config.MinVersion cfg)"
    and "convertVersion (TLSSetting.MaxVersion c) defaultMaxTLSVersion = Inr (Config.MaxVersion cfg)"
    and "Config.ServerName cfg = []" and "\<not> Config.InsecureSkipVerify cfg"
    and "ClientCAs cfg = None" and "ClientAuth cfg = NoClientCert"
    and "GetConfigForClient cfg = None"
  using assms
  by (auto simp add: loadTLSConfig_def split: if_splits sum.splits prod.splits)

lemma loadTLSConfig_unpaired:
  assumes "(TLSSetting.CertFile c = [] \<and> TLSSetting.KeyFile c \<noteq> []) \<or>
           (TLSSetting.CertFile c \<noteq> [] \<and> TLSSetting.KeyFile c = [])"
  shows "loadTLSConfig w c =
     (Inl (if CAFile c \<noteq> [] \<and> isl (fst (loadCert w (CAFile c)))
           then Wrapf ''failed to load CA CertPool: %w'' [] (projl (fst (loadCert w (CAFile c))))
           else New ''for auth via TLS, either both certificate and key must be supplied, or neither''),
      if CAFile c = [] then [] else [IoReadFile (CAFile c)])"
proof (cases "CAFile c = []")
  case True
  with assms show ?thesis by (simp add: loadTLSConfig_def)
next
  case False
  obtain res t where l: "loadCert w (CAFile c) = (res, t)" by (cases "loadCert w (CAFile c)")
  with loadCert_trace [of w "CAFile c"] have t: "t = [IoReadFile (CAFile c)]" by simp
  from False assms l t show ?thesis
    by (cases res) (simp_all add: loadTLSConfig_def)
qed

lemma newClientCAsReloader_eq:
  "newClientCAsReloader w p c =
     (case fst (loadCert w (ClientCAFile c)) of
        Inl err \<Rightarrow> Inl (Wrapf ''TrustStoreLoadError: %w'' [] err)
      | Inr pool \<Rightarrow> Inr \<lparr>clientCAsFile = p, certPool = Some pool, watching = False\<rparr>,
      [IoReadFile (ClientCAFile c)])"
proof -
  obtain res t where l: "loadCert w (ClientCAFile c) = (res, t)"
    by (cases "loadCert w (ClientCAFile c)")
  with loadCert_trace [of w "ClientCAFile c"] have "t = [IoReadFile (ClientCAFile c)]" by simp
  with l show ?thesis
    by (cases res) (simp_all add: newClientCAsReloader_def loadClientCAFile_def)
qed

lemma server_no_client_CA:
  assumes "ClientCAFile c = []" and "loadTLSConfig w c = (Inr tlsCfg, t)"
  shows "TLSServerSetting_LoadTLSConfig w c = (Inr (Some tlsCfg), t)"
  using assms by (simp add: TLSServerSetting_LoadTLSConfig_def)

lemma server_client_CA_fixed:
  assumes "ClientCAFile c \<noteq> []" and "\<not> ReloadClientCAFile c"
    and "loadTLSConfig w c = (Inr tlsCfg, t)"
    and "fst (loadCert w (ClientCAFile c)) = Inr pool"
  shows "TLSServerSetting_LoadTLSConfig w c =
     (Inr (Some (tlsCfg\<lparr>ClientCAs := Some pool, ClientAuth := RequireAndVerifyClientCert\<rparr>)),
      t @ [IoReadFile (ClientCAFile c)])"
  using assms by (simp add: TLSServerSetting_LoadTLSConfig_def newClientCAsReloader_eq)

lemma server_client_CA_watched:
  assumes "ClientCAFile c \<noteq> []" and "ReloadClientCAFile c"
    and "loadTLSConfig w c = (Inr tlsCfg, t)"
    and "fst (loadCert w (ClientCAFile c)) = Inr pool"
    and "WatchFile w (ClientCAFile c) = None"
  shows "TLSServerSetting_LoadTLSConfig w c =
     (Inr (Some (tlsCfg\<lparr>GetConfigForClient :=
                     Some \<lparr>clientCAsFile = ClientCAFile c, certPool = Some pool, watching = True\<rparr>,
                   ClientCAs := Some pool, ClientAuth := RequireAndVerifyClientCert\<rparr>)),
      t @ [IoReadFile (ClientCAFile c), IoStartWatching (ClientCAFile c)])"
  using assms
  by (simp add: TLSServerSetting_LoadTLSConfig_def newClientCAsReloader_eq startWatching_def)

lemma server_Inr:
  assumes "TLSServerSetting_LoadTLSConfig w c = (Inr res, t)"
  shows "\<exists>tlsCfg t1. loadTLSConfig w c = (Inr tlsCfg, t1) \<and>
     (ClientCAFile c = [] \<or>
      (\<exists>pool. fst (loadCert w (ClientCAFile c)) = Inr pool \<and>
         (ReloadClientCAFile c \<longrightarrow> WatchFile w (ClientCAFile c) = None)))"
  using assms
  by (auto simp add: TLSServerSetting_LoadTLSConfig_def newClientCAsReloader_eq startWatching_def
      split: sum.splits prod.splits if_splits option.splits)

lemma loadCert_disk1_ca:
  "loadCert (disk1 n) ''ca.pem'' = (Inr (CertPool [''ca-1'']), [IoReadFile ''ca.pem''])"
  by (simp add: loadCert_def disk1_def)

lemma loadTLSConfig_server1:
  "loadTLSConfig (disk1 0) (server1\<lparr>ReloadClientCAFile := b\<rparr>) =
     (Inr \<lparr>RootCAs = Some (CertPool [''ca-1'']),
           Config.GetCertificate = Some reloader1,
           GetClientCertificate = Some reloader1,
           Config.MinVersion = VersionTLS12, Config.MaxVersion = 0,
           Config.ServerName = [], Config.InsecureSkipVerify = False,
           ClientCAs = None, ClientAuth = NoClientCert, GetConfigForClient = None\<rparr>,
      [IoReadFile ''ca.pem'', IoLoadX509KeyPair ''cert.pem'' ''key.pem''])"
  by (simp add: loadTLSConfig_def server1_def loadCert_disk1_ca newCertReloader_disk1
      convertVersion_def defaultMinTLSVersion_def defaultMaxTLSVersion_def)

subsection \<open>Certificate without key, key without certificate\<close>

text \<open>
  C3 (as amended). Let exactly one of \<^verbatim>\<open>cert_file\<close> and \<^verbatim>\<open>key_file\<close> be set. The
  server builder always fails. The client builder fails too, unless \<^verbatim>\<open>insecure\<close> is
  true and \<^verbatim>\<open>ca_file\<close> is empty: then it returns the nil context and no error,
  without looking at the pair. The pairing is checked after the CA file is loaded
  and before the certificate and key are: when \<^verbatim>\<open>ca_file\<close> is set, that file is
  read first (the only disk operation of the call), and if its load fails the error
  is the CA load error; in every other case the error is the error of the
  incomplete pair, wrapped by the builder.
\<close>

theorem unpaired_cert_key_fails:
  assumes "(TLSSetting.CertFile c = [] \<and> TLSSetting.KeyFile c \<noteq> []) \<or>
           (TLSSetting.CertFile c \<noteq> [] \<and> TLSSetting.KeyFile c = [])"
    and "(TLSSetting.CertFile s = [] \<and> TLSSetting.KeyFile s \<noteq> []) \<or>
         (TLSSetting.CertFile s \<noteq> [] \<and> TLSSetting.KeyFile s = [])"
  shows "TLSServerSetting_LoadTLSConfig w s =
       (Inl (Wrapf ''failed to load TLS config: %w'' []
          (if CAFile s \<noteq> [] \<and> isl (fst (loadCert w (CAFile s)))
           then Wrapf ''failed to load CA CertPool: %w'' [] (projl (fst (loadCert w (CAFile s))))
           else New ''for auth via TLS, either both certificate and key must be supplied, or neither'')),
        if CAFile s = [] then [] else [IoReadFile (CAFile s)])
     \<and> TLSClientSetting_LoadTLSConfig w c =
       (if Insecure c \<and> CAFile c = [] then (Inr None, [])
        else
         (Inl (Wrapf ''failed to load TLS config: %w'' []
            (if CAFile c \<noteq> [] \<and> isl (fst (loadCert w (CAFile c)))
             then Wrapf ''failed to load CA CertPool: %w'' [] (projl (fst (loadCert w (CAFile c))))
             else New ''for auth via TLS, either both certificate and key must be supplied, or neither'')),
          if CAFile c = [] then [] else [IoReadFile (CAFile c)]))"
proof
  show "TLSServerSetting_LoadTLSConfig w s =
       (Inl (Wrapf ''failed to load TLS config: %w'' []
          (if CAFile s \<noteq> [] \<and> isl (fst (loadCert w (CAFile s)))
           then Wrapf ''failed to load CA CertPool: %w'' [] (projl (fst (loadCert w (CAFile s))))
           else New ''for auth via TLS, either both certificate and key must be supplied, or neither'')),
        if CAFile s = [] then [] else [IoReadFile (CAFile s)])"
    by (simp add: TLSServerSetting_LoadTLSConfig_def loadTLSConfig_unpaired [OF assms(2)])
next
  show "TLSClientSetting_LoadTLSConfig w c =
       (if Insecure c \<and> CAFile c = [] then (Inr None, [])
        else
         (Inl (Wrapf ''failed to load TLS config: %w'' []
            (if CAFile c \<noteq> [] \<and> isl (fst (loadCert w (CAFile c)))
             then Wrapf ''failed to load CA CertPool: %w'' [] (projl (fst (loadCert w (CAFile c))))
             else New ''for auth via TLS, either both certificate and key must be supplied, or neither'')),
          if CAFile c = [] then [] else [IoReadFile (CAFile c)]))"
    by (simp add: TLSClientSetting_LoadTLSConfig_def loadTLSConfig_unpaired [OF assms(1)])
qed

text \<open>
  On \<open>disk1\<close>: the server policy without CA file and without certificate, and the
  client policy without key.
\<close>

theorem unpaired_cert_key_fails_witness:
  "((TLSSetting.CertFile (client1\<lparr>TLSSetting.KeyFile := []\<rparr>) = [] \<and>
     TLSSetting.KeyFile (client1\<lparr>TLSSetting.KeyFile := []\<rparr>) \<noteq> []) \<or>
    (TLSSetting.CertFile (client1\<lparr>TLSSetting.KeyFile := []\<rparr>) \<noteq> [] \<and>
     TLSSetting.KeyFile (client1\<lparr>TLSSetting.KeyFile := []\<rparr>) = []))
   \<and> ((TLSSetting.CertFile (server1\<lparr>TLSSetting.CertFile := [], CAFile := []\<rparr>) = [] \<and>
     TLSSetting.KeyFile (server1\<lparr>TLSSetting.CertFile := [], CAFile := []\<rparr>) \<noteq> []) \<or>
    (TLSSetting.CertFile (server1\<lparr>TLSSetting.CertFile := [], CAFile := []\<rparr>) \<noteq> [] \<and>
     TLSSetting.KeyFile (server1\<lparr>TLSSetting.CertFile := [], CAFile := []\<rparr>) = []))
   \<and> TLSServerSetting_LoadTLSConfig (disk1 0) (server1\<lparr>TLSSetting.CertFile := [], CAFile := []\<rparr>) =
       (Inl (Wrapf ''failed to load TLS config: %w'' []
          (New ''for auth via TLS, either both certificate and key must be supplied, or neither'')),
        [])
   \<and> TLSClientSetting_LoadTLSConfig (disk1 0) (client1\<lparr>TLSSetting.KeyFile := []\<rparr>) =
       (Inl (Wrapf ''failed to load TLS config: %w'' []
          (New ''for auth via TLS, either both certificate and key must be supplied, or neither'')),
        [IoReadFile ''ca.pem''])"
proof -
  have hc: "(TLSSetting.CertFile (client1\<lparr>TLSSetting.KeyFile := []\<rparr>) = [] \<and>
     TLSSetting.KeyFile (client1\<lparr>TLSSetting.KeyFile := []\<rparr>) \<noteq> []) \<or>
    (TLSSetting.CertFile (client1\<lparr>TLSSetting.KeyFile := []\<rparr>) \<noteq> [] \<and>
     TLSSetting.KeyFile (client1\<lparr>TLSSetting.KeyFile := []\<rparr>) = [])"
    by (simp add: client1_def)
  have hs: "(TLSSetting.CertFile (server1\<lparr>TLSSetting.CertFile := [], CAFile := []\<rparr>) = [] \<and>
     TLSSetting.KeyFile (server1\<lparr>TLSSetting.CertFile := [], CAFile := []\<rparr>) \<noteq> []) \<or>
    (TLSSetting.CertFile (server1\<lparr>TLSSetting.CertFile := [], CAFile := []\<rparr>) \<noteq> [] \<and>
     TLSSetting.KeyFile (server1\<lparr>TLSSetting.CertFile := [], CAFile := []\<rparr>) = [])"
    by (simp add: server1_def)
  have ca: "loadCert (disk1 0) ''ca.pem'' = (Inr (CertPool [''ca-1'']), [IoReadFile ''ca.pem''])"
    by (simp add: loadCert_def disk1_def)
  have f: "CAFile (client1\<lparr>TLSSetting.KeyFile := []\<rparr>) = ''ca.pem''"
    "\<not> Insecure (client1\<lparr>TLSSetting.KeyFile := []\<rparr>)"
    "CAFile (server1\<lparr>TLSSetting.CertFile := [], CAFile := []\<rparr>) = []"
    by (simp_all add: client1_def server1_def)
  from unpaired_cert_key_fails [OF hc hs, of "disk1 0"] hc hs show ?thesis
    by (simp only: f ca) simp
qed

text \<open>
  C3 as stated fails in three ways. The client policy with a certificate and no key,
  \<^verbatim>\<open>insecure\<close> set and no CA file: no error at all. The server policy with a
  certificate and no key: the CA file is read before the check fails. The same with
  a CA file that is missing: the error is the error of the CA load.
\<close>

theorem unpaired_cert_key_counterexample:
  "TLSSetting.CertFile (client1\<lparr>TLSSetting.KeyFile := [], CAFile := [], Insecure := True\<rparr>) \<noteq> []
   \<and> TLSSetting.KeyFile (client1\<lparr>TLSSetting.KeyFile := [], CAFile := [], Insecure := True\<rparr>) = []
   \<and> TLSClientSetting_LoadTLSConfig (disk1 0)
        (client1\<lparr>TLSSetting.KeyFile := [], CAFile := [], Insecure := True\<rparr>) = (Inr None, [])
   \<and> TLSSetting.CertFile (server1\<lparr>TLSSetting.KeyFile := []\<rparr>) \<noteq> []
   \<and> TLSSetting.KeyFile (server1\<lparr>TLSSetting.KeyFile := []\<rparr>) = []
   \<and> TLSServerSetting_LoadTLSConfig (disk1 0) (server1\<lparr>TLSSetting.KeyFile := []\<rparr>) =
       (Inl (Wrapf ''failed to load TLS config: %w'' []
          (New ''for auth via TLS, either both certificate and key must be supplied, or neither'')),
        [IoReadFile ''ca.pem''])
   \<and> TLSServerSetting_LoadTLSConfig (disk1 0)
        (server1\<lparr>TLSSetting.KeyFile := [], CAFile := ''missing.pem''\<rparr>) =
       (Inl (Wrapf ''failed to load TLS config: %w'' []
          (Wrapf ''failed to load CA CertPool: %w'' []
            (Wrapf ''failed to load CA %s: %w'' [''missing.pem'']
              (New ''open: no such file or directory'')))),
        [IoReadFile ''missing.pem''])"
  by (simp add: TLSClientSetting_LoadTLSConfig_def TLSServerSetting_LoadTLSConfig_def
      loadTLSConfig_def loadCert_def client1_def server1_def disk1_def)

subsection \<open>The client builder\<close>

text \<open>
  C4. With \<^verbatim>\<open>insecure\<close> true and an empty \<^verbatim>\<open>ca_file\<close> the client builder returns
  the nil context and a nil error, and touches no file. For every other policy the
  result is an error or a context, never nil without an error, and a context it
  returns is complete: its root pool is the pool loaded from \<^verbatim>\<open>ca_file\<close> (nil when
  the path is empty), both certificate callbacks call the reloader built from the
  certificate and key (nil when none is configured), its version bounds are the
  resolved \<^verbatim>\<open>min_version\<close> and \<^verbatim>\<open>max_version\<close>, its server name and
  skip-verify flag are the policy's, and nothing about client certificates is set.
  (A result is \<open>Inl\<close> or \<open>Inr\<close>: a context never comes with an error.)
\<close>

theorem client_nil_or_built:
  "(Insecure c \<and> CAFile c = [] \<longrightarrow> TLSClientSetting_LoadTLSConfig w c = (Inr None, []))
   \<and> (\<not> (Insecure c \<and> CAFile c = []) \<longrightarrow>
        (case fst (TLSClientSetting_LoadTLSConfig w c) of
           Inl err \<Rightarrow> True
         | Inr None \<Rightarrow> False
         | Inr (Some cfg) \<Rightarrow>
             (if CAFile c = [] then RootCAs cfg = None
              else \<exists>pool. fst (loadCert w (CAFile c)) = Inr pool \<and> RootCAs cfg = Some pool)
             \<and> (if TLSSetting.CertFile c = [] \<and> TLSSetting.KeyFile c = []
                 then Config.GetCertificate cfg = None \<and> GetClientCertificate cfg = None
                 else \<exists>r. fst (newCertReloader w (TLSSetting.CertFile c) (TLSSetting.KeyFile c)
                                  (TLSSetting.ReloadInterval c)) = Inr r
                        \<and> Config.GetCertificate cfg = Some r \<and> GetClientCertificate cfg = Some r)
             \<and> convertVersion (TLSSetting.MinVersion c) defaultMinTLSVersion =
                 Inr (Config.MinVersion cfg)
             \<and> convertVersion (TLSSetting.MaxVersion c) defaultMaxTLSVersion =
                 Inr (Config.MaxVersion cfg)
             \<and> Config.ServerName cfg = TLSClientSetting.ServerName c
             \<and> Config.InsecureSkipVerify cfg = TLSClientSetting.InsecureSkipVerify c
             \<and> ClientCAs cfg = None \<and> ClientAuth cfg = NoClientCert
             \<and> GetConfigForClient cfg = None))"
proof (intro conjI impI)
  assume "Insecure c \<and> CAFile c = []"
  then show "TLSClientSetting_LoadTLSConfig w c = (Inr None, [])"
    by (simp add: TLSClientSetting_LoadTLSConfig_def)
next
  assume tls: "\<not> (Insecure c \<and> CAFile c = [])"
  obtain res t where l: "loadTLSConfig w c = (res, t)" by (cases "loadTLSConfig w c")
  show "case fst (TLSClientSetting_LoadTLSConfig w c) of
           Inl err \<Rightarrow> True
         | Inr None \<Rightarrow> False
         | Inr (Some cfg) \<Rightarrow>
             (if CAFile c = [] then RootCAs cfg = None
              else \<exists>pool. fst (loadCert w (CAFile c)) = Inr pool \<and> RootCAs cfg = Some pool)
             \<and> (if TLSSetting.CertFile c = [] \<and> TLSSetting.KeyFile c = []
                 then Config.GetCertificate cfg = None \<and> GetClientCertificate cfg = None
                 else \<exists>r. fst (newCertReloader w (TLSSetting.CertFile c) (TLSSetting.KeyFile c)
                                  (TLSSetting.ReloadInterval c)) = Inr r
                        \<and> Config.GetCertificate cfg = Some r \<and> GetClientCertificate cfg = Some r)
             \<and> convertVersion (TLSSetting.MinVersion c) defaultMinTLSVersion =
                 Inr (Config.MinVersion cfg)
             \<and> convertVersion (TLSSetting.MaxVersion c) defaultMaxTLSVersion =
                 Inr (Config.MaxVersion cfg)
             \<and> Config.ServerName cfg = TLSClientSetting.ServerName c
             \<and> Config.InsecureSkipVerify cfg = TLSClientSetting.InsecureSkipVerify c
             \<and> ClientCAs cfg = None \<and> ClientAuth cfg = NoClientCert
             \<and> GetConfigForClient cfg = None"
  proof (cases res)
    case (Inl err)
    with tls l show ?thesis by (simp add: TLSClientSetting_LoadTLSConfig_def)
  next
    case (Inr tlsCfg)
    with l have b: "loadTLSConfig w c = (Inr tlsCfg, t)" by simp
    from tls b have "fst (TLSClientSetting_LoadTLSConfig w c) =
        Inr (Some (tlsCfg\<lparr>Config.ServerName := TLSClientSetting.ServerName c,
                           Config.InsecureSkipVerify := TLSClientSetting.InsecureSkipVerify c\<rparr>))"
      by (simp add: TLSClientSetting_LoadTLSConfig_def)
    with loadTLSConfig_Inr [OF b] show ?thesis by simp
  qed
qed

theorem client_nil_or_built_witness:
  "Insecure (client1\<lparr>CAFile := [], Insecure := True\<rparr>)
   \<and> CAFile (client1\<lparr>CAFile := [], Insecure := True\<rparr>) = []
   \<and> TLSClientSetting_LoadTLSConfig (disk1 0) (client1\<lparr>CAFile := [], Insecure := True\<rparr>) =
       (Inr None, [])
   \<and> \<not> (Insecure client1 \<and> CAFile client1 = [])
   \<and> TLSClientSetting_LoadTLSConfig (disk1 0) client1 =
       (Inr (Some \<lparr>RootCAs = Some (CertPool [''ca-1'']),
           Config.GetCertificate = Some reloader1,
           GetClientCertificate = Some reloader1,
           Config.MinVersion = VersionTLS12, Config.MaxVersion = VersionTLS13,
           Config.ServerName = ''collector'', Config.InsecureSkipVerify = True,
           ClientCAs = None, ClientAuth = NoClientCert, GetConfigForClient = None\<rparr>),
        [IoReadFile ''ca.pem'', IoLoadX509KeyPair ''cert.pem'' ''key.pem''])"
proof -
  have i: "Insecure (client1\<lparr>CAFile := [], Insecure := True\<rparr>)
     \<and> CAFile (client1\<lparr>CAFile := [], Insecure := True\<rparr>) = []"
    by simp
  from client_nil_or_built [of "client1\<lparr>CAFile := [], Insecure := True\<rparr>" "disk1 0"] i
  have nil: "TLSClientSetting_LoadTLSConfig (disk1 0) (client1\<lparr>CAFile := [], Insecure := True\<rparr>) =
       (Inr None, [])"
    by blast
  have tls: "\<not> (Insecure client1 \<and> CAFile client1 = [])"
    by (simp add: client1_def)
  have built: "TLSClientSetting_LoadTLSConfig (disk1 0) client1 =
       (Inr (Some \<lparr>RootCAs = Some (CertPool [''ca-1'']),
           Config.GetCertificate = Some reloader1,
           GetClientCertificate = Some reloader1,
           Config.MinVersion = VersionTLS12, Config.MaxVersion = VersionTLS13,
           Config.ServerName = ''collector'', Config.InsecureSkipVerify = True,
           ClientCAs = None, ClientAuth = NoClientCert, GetConfigForClient = None\<rparr>),
        [IoReadFile ''ca.pem'', IoLoadX509KeyPair ''cert.pem'' ''key.pem''])"
    by (simp add: TLSClientSetting_LoadTLSConfig_def loadTLSConfig_def client1_def
        loadCert_disk1_ca newCertReloader_disk1 convertVersion_def tlsVersions_def
        defaultMinTLSVersion_def)
  from i nil tls built show ?thesis by blast
qed

subsection \<open>The server builder\<close>

text \<open>
  C5. When the server builder returns a context: if \<^verbatim>\<open>client_ca_file\<close> is set, its
  load succeeded, the context requires and verifies client certificates and its
  client CA pool is the loaded pool; if \<^verbatim>\<open>client_ca_file\<close> is empty, the context
  has no client certificate requirement, no client CA pool and no per-connection
  hook. And the builder does return a context whenever the common part succeeds and
  either no client CA file is set, or its load succeeds and the watch, when asked
  for, can be started.
\<close>

theorem server_client_auth:
  "(TLSServerSetting_LoadTLSConfig w c = (Inr res, t) \<longrightarrow>
      (\<exists>cfg. res = Some cfg \<and>
         (if ClientCAFile c = []
          then ClientAuth cfg = NoClientCert \<and> ClientCAs cfg = None \<and> GetConfigForClient cfg = None
          else ClientAuth cfg = RequireAndVerifyClientCert \<and>
               (\<exists>pool. fst (loadCert w (ClientCAFile c)) = Inr pool \<and> ClientCAs cfg = Some pool))))
   \<and> (\<not> isl (fst (loadTLSConfig w c)) \<and>
        (ClientCAFile c = [] \<or>
         \<not> isl (fst (loadCert w (ClientCAFile c))) \<and>
         (ReloadClientCAFile c \<longrightarrow> WatchFile w (ClientCAFile c) = None)) \<longrightarrow>
       (\<exists>cfg. fst (TLSServerSetting_LoadTLSConfig w c) = Inr (Some cfg)))"
proof (intro conjI impI)
  assume r: "TLSServerSetting_LoadTLSConfig w c = (Inr res, t)"
  from server_Inr [OF r] obtain tlsCfg t1 where b: "loadTLSConfig w c = (Inr tlsCfg, t1)"
    and ca: "ClientCAFile c = [] \<or>
      (\<exists>pool. fst (loadCert w (ClientCAFile c)) = Inr pool \<and>
         (ReloadClientCAFile c \<longrightarrow> WatchFile w (ClientCAFile c) = None))"
    by blast
  note base = loadTLSConfig_Inr(7-9) [OF b]
  show "\<exists>cfg. res = Some cfg \<and>
         (if ClientCAFile c = []
          then ClientAuth cfg = NoClientCert \<and> ClientCAs cfg = None \<and> GetConfigForClient cfg = None
          else ClientAuth cfg = RequireAndVerifyClientCert \<and>
               (\<exists>pool. fst (loadCert w (ClientCAFile c)) = Inr pool \<and> ClientCAs cfg = Some pool))"
  proof (cases "ClientCAFile c = []")
    case True
    from server_no_client_CA [OF True b] r base True show ?thesis by simp
  next
    case False
    with ca obtain pool where p: "fst (loadCert w (ClientCAFile c)) = Inr pool"
      and wok: "ReloadClientCAFile c \<longrightarrow> WatchFile w (ClientCAFile c) = None"
      by blast
    show ?thesis
    proof (cases "ReloadClientCAFile c")
      case True
      with wok have "WatchFile w (ClientCAFile c) = None" by simp
      from server_client_CA_watched [OF False True b p this] r False p show ?thesis by simp
    next
      case nr: False
      from server_client_CA_fixed [OF False nr b p] r False p show ?thesis by simp
    qed
  qed
next
  assume a: "\<not> isl (fst (loadTLSConfig w c)) \<and>
        (ClientCAFile c = [] \<or>
         \<not> isl (fst (loadCert w (ClientCAFile c))) \<and>
         (ReloadClientCAFile c \<longrightarrow> WatchFile w (ClientCAFile c) = None))"
  then obtain tlsCfg t1 where b: "loadTLSConfig w c = (Inr tlsCfg, t1)"
    by (cases "loadTLSConfig w c"; cases "fst (loadTLSConfig w c)") auto
  show "\<exists>cfg. fst (TLSServerSetting_LoadTLSConfig w c) = Inr (Some cfg)"
  proof (cases "ClientCAFile c = []")
    case True
    from server_no_client_CA [OF True b] show ?thesis by simp
  next
    case False
    with a obtain pool where p: "fst (loadCert w (ClientCAFile c)) = Inr pool"
      by (cases "fst (loadCert w (ClientCAFile c))") auto
    from a False have wok: "ReloadClientCAFile c \<longrightarrow> WatchFile w (ClientCAFile c) = None"
      by blast
    show ?thesis
    proof (cases "ReloadClientCAFile c")
      case True
      with wok have "WatchFile w (ClientCAFile c) = None" by simp
      from server_client_CA_watched [OF False True b p this] show ?thesis by simp
    next
      case nr: False
      from server_client_CA_fixed [OF False nr b p] show ?thesis by simp
    qed
  qed
qed

text \<open>
  The server policy of the example with reload of the client CA file switched on,
  and the same policy without a client CA file.
\<close>

theorem server_client_auth_witness:
  "TLSServerSetting_LoadTLSConfig (disk1 0) (server1\<lparr>ReloadClientCAFile := True\<rparr>) =
     (Inr (Some \<lparr>RootCAs = Some (CertPool [''ca-1'']),
           Config.GetCertificate = Some reloader1,
           GetClientCertificate = Some reloader1,
           Config.MinVersion = VersionTLS12, Config.MaxVersion = 0,
           Config.ServerName = [], Config.InsecureSkipVerify = False,
           ClientCAs = Some (CertPool [''ca-1'']), ClientAuth = RequireAndVerifyClientCert,
           GetConfigForClient = Some \<lparr>clientCAsFile = ''ca.pem'',
             certPool = Some (CertPool [''ca-1'']), watching = True\<rparr>\<rparr>),
      [IoReadFile ''ca.pem'', IoLoadX509KeyPair ''cert.pem'' ''key.pem'', IoReadFile ''ca.pem'',
       IoStartWatching ''ca.pem''])
   \<and> ClientCAFile (server1\<lparr>ReloadClientCAFile := True\<rparr>) \<noteq> []
   \<and> fst (loadCert (disk1 0) (ClientCAFile (server1\<lparr>ReloadClientCAFile := True\<rparr>))) =
       Inr (CertPool [''ca-1''])
   \<and> \<not> isl (fst (loadTLSConfig (disk1 0) (server1\<lparr>ReloadClientCAFile := True\<rparr>)))
   \<and> WatchFile (disk1 0) (ClientCAFile (server1\<lparr>ReloadClientCAFile := True\<rparr>)) = None
   \<and> ClientCAFile (server1\<lparr>ClientCAFile := []\<rparr>) = []
   \<and> TLSServerSetting_LoadTLSConfig (disk1 0) (server1\<lparr>ClientCAFile := []\<rparr>) =
     (Inr (Some \<lparr>RootCAs = Some (CertPool [''ca-1'']),
           Config.GetCertificate = Some reloader1,
           GetClientCertificate = Some reloader1,
           Config.MinVersion = VersionTLS12, Config.MaxVersion = 0,
           Config.ServerName = [], Config.InsecureSkipVerify = False,
           ClientCAs = None, ClientAuth = NoClientCert, GetConfigForClient = None\<rparr>),
      [IoReadFile ''ca.pem'', IoLoadX509KeyPair ''cert.pem'' ''key.pem''])"
proof -
  let ?s = "server1\<lparr>ReloadClientCAFile := True\<rparr>"
  have none: "ClientCAFile (server1\<lparr>ClientCAFile := []\<rparr>) = []
   \<and> TLSServerSetting_LoadTLSConfig (disk1 0) (server1\<lparr>ClientCAFile := []\<rparr>) =
     (Inr (Some \<lparr>RootCAs = Some (CertPool [''ca-1'']),
           Config.GetCertificate = Some reloader1,
           GetClientCertificate = Some reloader1,
           Config.MinVersion = VersionTLS12, Config.MaxVersion = 0,
           Config.ServerName = [], Config.InsecureSkipVerify = False,
           ClientCAs = None, ClientAuth = NoClientCert, GetConfigForClient = None\<rparr>),
      [IoReadFile ''ca.pem'', IoLoadX509KeyPair ''cert.pem'' ''key.pem''])"
    by (simp add: TLSServerSetting_LoadTLSConfig_def loadTLSConfig_def server1_def
        loadCert_disk1_ca newCertReloader_disk1 convertVersion_def
        defaultMinTLSVersion_def defaultMaxTLSVersion_def)
  have f: "ClientCAFile ?s = ''ca.pem''" "ReloadClientCAFile ?s"
    by (simp_all add: server1_def)
  have wf: "WatchFile (disk1 0) ''ca.pem'' = None"
    by (simp add: disk1_def)
  have b: "\<not> isl (fst (loadTLSConfig (disk1 0) ?s))"
    by (simp add: loadTLSConfig_server1)
  have ca: "fst (loadCert (disk1 0) ''ca.pem'') = Inr (CertPool [''ca-1''])"
    by (simp add: loadCert_disk1_ca)
  have ex: "\<exists>cfg. fst (TLSServerSetting_LoadTLSConfig (disk1 0) ?s) = Inr (Some cfg)"
    using server_client_auth [of "disk1 0" ?s, THEN conjunct2] b
    by (simp add: f wf ca)
  have run: "TLSServerSetting_LoadTLSConfig (disk1 0) ?s =
     (Inr (Some \<lparr>RootCAs = Some (CertPool [''ca-1'']),
           Config.GetCertificate = Some reloader1,
           GetClientCertificate = Some reloader1,
           Config.MinVersion = VersionTLS12, Config.MaxVersion = 0,
           Config.ServerName = [], Config.InsecureSkipVerify = False,
           ClientCAs = Some (CertPool [''ca-1'']), ClientAuth = RequireAndVerifyClientCert,
           GetConfigForClient = Some \<lparr>clientCAsFile = ''ca.pem'',
             certPool = Some (CertPool [''ca-1'']), watching = True\<rparr>\<rparr>),
      [IoReadFile ''ca.pem'', IoLoadX509KeyPair ''cert.pem'' ''key.pem'', IoReadFile ''ca.pem'',
       IoStartWatching ''ca.pem''])"
    using server_client_CA_watched [of ?s "disk1 0", OF _ _ loadTLSConfig_server1 _ _]
    by (simp add: f wf ca)
  from ex run f b ca wf none show ?thesis by simp
qed

text \<open>
  C10. With \<^verbatim>\<open>client_ca_file\<close> set and \<^verbatim>\<open>client_ca_file_reload\<close> false, a context
  the server builder returns has no \<^verbatim>\<open>GetConfigForClient\<close> hook, and its client CA
  pool is the pool loaded during the build. The build reads the client CA file once,
  as its last disk operation, and starts no watch on any path. The context holds the
  pool itself and no callback that could load another.
\<close>

theorem server_fixed_client_CA:
  assumes "ClientCAFile c \<noteq> []" and "\<not> ReloadClientCAFile c"
    and "TLSServerSetting_LoadTLSConfig w c = (Inr res, t)"
  shows "\<exists>cfg pool. res = Some cfg
           \<and> GetConfigForClient cfg = None
           \<and> fst (loadCert w (ClientCAFile c)) = Inr pool \<and> ClientCAs cfg = Some pool
           \<and> t = snd (loadTLSConfig w c) @ [IoReadFile (ClientCAFile c)]
           \<and> (\<forall>path. IoStartWatching path \<notin> set t)"
proof -
  from server_Inr [OF assms(3)] assms(1) obtain tlsCfg t1 pool
    where b: "loadTLSConfig w c = (Inr tlsCfg, t1)"
      and p: "fst (loadCert w (ClientCAFile c)) = Inr pool"
    by blast
  have nowatch: "IoStartWatching path \<notin> set t1" for path
  proof -
    have "set (snd (loadTLSConfig w c)) \<subseteq>
        {IoReadFile (CAFile c), IoLoadX509KeyPair (TLSSetting.CertFile c) (TLSSetting.KeyFile c)}"
      using loadCert_trace [of w "CAFile c"]
      by (auto simp add: loadTLSConfig_def newCertReloader_def
          split: if_splits sum.splits prod.splits)
    with b show ?thesis by auto
  qed
  from server_client_CA_fixed [OF assms(1,2) b p] assms(3)
  have "res = Some (tlsCfg\<lparr>ClientCAs := Some pool, ClientAuth := RequireAndVerifyClientCert\<rparr>)"
    and "t = t1 @ [IoReadFile (ClientCAFile c)]"
    by simp_all
  with loadTLSConfig_Inr(9) [OF b] b p nowatch show ?thesis by simp
qed

theorem server_fixed_client_CA_witness:
  "ClientCAFile server1 \<noteq> [] \<and> \<not> ReloadClientCAFile server1
   \<and> TLSServerSetting_LoadTLSConfig (disk1 0) server1 =
     (Inr (Some \<lparr>RootCAs = Some (CertPool [''ca-1'']),
           Config.GetCertificate = Some reloader1,
           GetClientCertificate = Some reloader1,
           Config.MinVersion = VersionTLS12, Config.MaxVersion = 0,
           Config.ServerName = [], Config.InsecureSkipVerify = False,
           ClientCAs = Some (CertPool [''ca-1'']), ClientAuth = RequireAndVerifyClientCert,
           GetConfigForClient = None\<rparr>),
      [IoReadFile ''ca.pem'', IoLoadX509KeyPair ''cert.pem'' ''key.pem'', IoReadFile ''ca.pem''])
   \<and> IoStartWatching ''ca.pem'' \<notin>
       set [IoReadFile ''ca.pem'', IoLoadX509KeyPair ''cert.pem'' ''key.pem'', IoReadFile ''ca.pem'']"
proof -
  have f: "ClientCAFile server1 \<noteq> []" "\<not> ReloadClientCAFile server1"
    "ClientCAFile server1 = ''ca.pem''"
    by (simp_all add: server1_def)
  have s: "server1\<lparr>ReloadClientCAFile := False\<rparr> = server1"
    by (simp add: server1_def)
  have ca: "fst (loadCert (disk1 0) (ClientCAFile server1)) = Inr (CertPool [''ca-1''])"
    by (simp add: f loadCert_disk1_ca)
  note b = loadTLSConfig_server1 [of False, unfolded s]
  from server_client_CA_fixed [OF f(1,2) b ca]
  have run: "TLSServerSetting_LoadTLSConfig (disk1 0) server1 =
     (Inr (Some \<lparr>RootCAs = Some (CertPool [''ca-1'']),
           Config.GetCertificate = Some reloader1,
           GetClientCertificate = Some reloader1,
           Config.MinVersion = VersionTLS12, Config.MaxVersion = 0,
           Config.ServerName = [], Config.InsecureSkipVerify = False,
           ClientCAs = Some (CertPool [''ca-1'']), ClientAuth = RequireAndVerifyClientCert,
           GetConfigForClient = None\<rparr>),
      [IoReadFile ''ca.pem'', IoLoadX509KeyPair ''cert.pem'' ''key.pem'', IoReadFile ''ca.pem''])"
    by (simp add: f)
  from server_fixed_client_CA [OF f(1,2) run] have
    "IoStartWatching ''ca.pem'' \<notin>
       set [IoReadFile ''ca.pem'', IoLoadX509KeyPair ''cert.pem'' ''key.pem'', IoReadFile ''ca.pem'']"
    by (simp add: f)
  with f(1,2) run show ?thesis by blast
qed

subsection \<open>Version resolution\<close>

text \<open>
  C6. \<open>convertVersion\<close> returns the caller's default for the empty string, the
  constant of the version for each of \<^verbatim>\<open>"1.0"\<close>, \<^verbatim>\<open>"1.1"\<close>, \<^verbatim>\<open>"1.2"\<close> and
  \<^verbatim>\<open>"1.3"\<close>, and the unsupported-version error for every other string. In the
  builders an empty \<^verbatim>\<open>min_version\<close> gives TLS 1.2 and an empty \<^verbatim>\<open>max_version\<close>
  gives 0, the library's own maximum. The function takes no world and returns no
  disk operation: its result depends on its two arguments only.
\<close>

theorem convertVersion_table:
  "convertVersion [] d = Inr d
   \<and> convertVersion ''1.0'' d = Inr VersionTLS10
   \<and> convertVersion ''1.1'' d = Inr VersionTLS11
   \<and> convertVersion ''1.2'' d = Inr VersionTLS12
   \<and> convertVersion ''1.3'' d = Inr VersionTLS13
   \<and> (v \<notin> {[], ''1.0'', ''1.1'', ''1.2'', ''1.3''} \<longrightarrow>
        convertVersion v d = Inl (Errorf ''unsupported TLS version: %q'' [v]))
   \<and> (fst (loadTLSConfig w c) = Inr cfg \<longrightarrow>
        (TLSSetting.MinVersion c = [] \<longrightarrow> Config.MinVersion cfg = VersionTLS12) \<and>
        (TLSSetting.MaxVersion c = [] \<longrightarrow> Config.MaxVersion cfg = 0))
   \<and> (fst (TLSClientSetting_LoadTLSConfig w cc) = Inr (Some cfg) \<longrightarrow>
        (TLSSetting.MinVersion cc = [] \<longrightarrow> Config.MinVersion cfg = VersionTLS12) \<and>
        (TLSSetting.MaxVersion cc = [] \<longrightarrow> Config.MaxVersion cfg = 0))
   \<and> (fst (TLSServerSetting_LoadTLSConfig w sc) = Inr (Some cfg) \<longrightarrow>
        (TLSSetting.MinVersion sc = [] \<longrightarrow> Config.MinVersion cfg = VersionTLS12) \<and>
        (TLSSetting.MaxVersion sc = [] \<longrightarrow> Config.MaxVersion cfg = 0))"
proof -
  have tab: "convertVersion ''1.0'' d = Inr VersionTLS10"
    "convertVersion ''1.1'' d = Inr VersionTLS11"
    "convertVersion ''1.2'' d = Inr VersionTLS12"
    "convertVersion ''1.3'' d = Inr VersionTLS13"
    by (simp_all add: convertVersion_def tlsVersions_def)
  have empty: "convertVersion [] d' = Inr d'" for d'
    by (simp add: convertVersion_def)
  have other: "v \<notin> {[], ''1.0'', ''1.1'', ''1.2'', ''1.3''} \<longrightarrow>
        convertVersion v d = Inl (Errorf ''unsupported TLS version: %q'' [v])"
  proof
    assume "v \<notin> {[], ''1.0'', ''1.1'', ''1.2'', ''1.3''}"
    then have "v \<noteq> []" and "tlsVersions v = None"
      by (simp_all add: tlsVersions_None)
    then show "convertVersion v d = Inl (Errorf ''unsupported TLS version: %q'' [v])"
      by (simp add: convertVersion_def)
  qed
  have base: "(TLSSetting.MinVersion x = [] \<longrightarrow> Config.MinVersion cfg' = VersionTLS12) \<and>
        (TLSSetting.MaxVersion x = [] \<longrightarrow> Config.MaxVersion cfg' = 0)"
    if "fst (loadTLSConfig w x) = Inr cfg'" for x :: "'x TLSSetting_scheme" and cfg'
  proof -
    from that obtain t where b: "loadTLSConfig w x = (Inr cfg', t)"
      by (cases "loadTLSConfig w x") simp
    from loadTLSConfig_Inr(3,4) [OF b] show ?thesis
      by (auto simp add: empty defaultMinTLSVersion_def defaultMaxTLSVersion_def)
  qed
  have client: "(TLSSetting.MinVersion cc = [] \<longrightarrow> Config.MinVersion cfg = VersionTLS12) \<and>
        (TLSSetting.MaxVersion cc = [] \<longrightarrow> Config.MaxVersion cfg = 0)"
    if "fst (TLSClientSetting_LoadTLSConfig w cc) = Inr (Some cfg)"
  proof -
    from that obtain tlsCfg where "fst (loadTLSConfig w cc) = Inr tlsCfg"
      and "Config.MinVersion cfg = Config.MinVersion tlsCfg"
      and "Config.MaxVersion cfg = Config.MaxVersion tlsCfg"
      by (auto simp add: TLSClientSetting_LoadTLSConfig_def
          split: if_splits prod.splits sum.splits)
    with base [of cc tlsCfg] show ?thesis by simp
  qed
  have server: "(TLSSetting.MinVersion sc = [] \<longrightarrow> Config.MinVersion cfg = VersionTLS12) \<and>
        (TLSSetting.MaxVersion sc = [] \<longrightarrow> Config.MaxVersion cfg = 0)"
    if "fst (TLSServerSetting_LoadTLSConfig w sc) = Inr (Some cfg)"
  proof -
    from that obtain tlsCfg where "fst (loadTLSConfig w sc) = Inr tlsCfg"
      and "Config.MinVersion cfg = Config.MinVersion tlsCfg"
      and "Config.MaxVersion cfg = Config.MaxVersion tlsCfg"
      by (auto simp add: TLSServerSetting_LoadTLSConfig_def newClientCAsReloader_eq
          startWatching_def split: if_splits prod.splits sum.splits option.splits)
    with base [of sc tlsCfg] show ?thesis by simp
  qed
  from tab empty other base client server show ?thesis by blast
qed

text \<open>
  The string \<^verbatim>\<open>"1.4"\<close>, the empty string with the builders' default minimum, and
  the server policy of the example, whose two version fields are empty.
\<close>

theorem convertVersion_table_witness:
  "''1.4'' \<notin> {[], ''1.0'', ''1.1'', ''1.2'', ''1.3''}
   \<and> convertVersion ''1.4'' defaultMinTLSVersion =
       Inl (Errorf ''unsupported TLS version: %q'' [''1.4''])
   \<and> convertVersion [] defaultMinTLSVersion = Inr VersionTLS12
   \<and> convertVersion ''1.3'' defaultMinTLSVersion = Inr 0x0304
   \<and> TLSSetting.MinVersion server1 = [] \<and> TLSSetting.MaxVersion server1 = []
   \<and> fst (TLSServerSetting_LoadTLSConfig (disk1 0) server1) =
       Inr (Some \<lparr>RootCAs = Some (CertPool [''ca-1'']),
           Config.GetCertificate = Some reloader1,
           GetClientCertificate = Some reloader1,
           Config.MinVersion = 0x0303, Config.MaxVersion = 0,
           Config.ServerName = [], Config.InsecureSkipVerify = False,
           ClientCAs = Some (CertPool [''ca-1'']), ClientAuth = RequireAndVerifyClientCert,
           GetConfigForClient = None\<rparr>)"
proof -
  have v: "''1.4'' \<notin> {[], ''1.0'', ''1.1'', ''1.2'', ''1.3''}"
    by simp
  note inst = convertVersion_table [where d = defaultMinTLSVersion and v = "''1.4''"
      and w = "disk1 0" and c = server1 and cc = client1 and sc = server1
      and cfg = "\<lparr>RootCAs = Some (CertPool [''ca-1'']),
           Config.GetCertificate = Some reloader1,
           GetClientCertificate = Some reloader1,
           Config.MinVersion = 0x0303, Config.MaxVersion = 0,
           Config.ServerName = [], Config.InsecureSkipVerify = False,
           ClientCAs = Some (CertPool [''ca-1'']), ClientAuth = RequireAndVerifyClientCert,
           GetConfigForClient = None\<rparr>"]
  from inst v have bad: "convertVersion ''1.4'' defaultMinTLSVersion =
       Inl (Errorf ''unsupported TLS version: %q'' [''1.4''])"
    by blast
  from inst have "convertVersion [] defaultMinTLSVersion = Inr defaultMinTLSVersion"
    by blast
  then have dflt: "convertVersion [] defaultMinTLSVersion = Inr VersionTLS12"
    by (simp add: defaultMinTLSVersion_def)
  from inst have "convertVersion ''1.3'' defaultMinTLSVersion = Inr VersionTLS13"
    by blast
  then have v13: "convertVersion ''1.3'' defaultMinTLSVersion = Inr 0x0304"
    by (simp add: VersionTLS13_def)
  have f: "TLSSetting.MinVersion server1 = []" "TLSSetting.MaxVersion server1 = []"
    "ClientCAFile server1 \<noteq> []" "\<not> ReloadClientCAFile server1"
    "ClientCAFile server1 = ''ca.pem''"
    by (simp_all add: server1_def)
  have s: "server1\<lparr>ReloadClientCAFile := False\<rparr> = server1"
    by (simp add: server1_def)
  have ca: "fst (loadCert (disk1 0) (ClientCAFile server1)) = Inr (CertPool [''ca-1''])"
    by (simp add: f loadCert_disk1_ca)
  note b = loadTLSConfig_server1 [of False, unfolded s]
  from server_client_CA_fixed [OF f(3,4) b ca]
  have run: "fst (TLSServerSetting_LoadTLSConfig (disk1 0) server1) =
       Inr (Some \<lparr>RootCAs = Some (CertPool [''ca-1'']),
           Config.GetCertificate = Some reloader1,
           GetClientCertificate = Some reloader1,
           Config.MinVersion = 0x0303, Config.MaxVersion = 0,
           Config.ServerName = [], Config.InsecureSkipVerify = False,
           ClientCAs = Some (CertPool [''ca-1'']), ClientAuth = RequireAndVerifyClientCert,
           GetConfigForClient = None\<rparr>)"
    by (simp add: VersionTLS12_def)
  from v bad dflt v13 f(1,2) run show ?thesis by blast
qed

end
